theory Spec2Isabelle
  imports Complex_Main "HOL-Library.Sublist" "HOL-Library.AList"
begin

section \<open>Strings as the host language has them\<close>

text \<open>
  Strings are ASCII byte strings.  \<open>toLowerCase\<close> maps the 26 capital letters to
  their small counterparts and leaves every other character alone;
  \<open>str_includes\<close> is \<open>String.prototype.includes\<close>: the argument occurs as a contiguous
  substring.
\<close>

definition toLowerChar :: "char \<Rightarrow> char" where
  "toLowerChar c =
     (case map_of (zip ''ABCDEFGHIJKLMNOPQRSTUVWXYZ'' ''abcdefghijklmnopqrstuvwxyz'') c of
        Some d \<Rightarrow> d
      | None \<Rightarrow> c)"

definition toLowerCase :: "string \<Rightarrow> string" where
  "toLowerCase s = map toLowerChar s"

fun anywhere :: "(string \<Rightarrow> bool) \<Rightarrow> string \<Rightarrow> bool" where
  "anywhere P [] = P []"
| "anywhere P (c # cs) = (P (c # cs) \<or> anywhere P cs)"

definition str_includes :: "string \<Rightarrow> string \<Rightarrow> bool" where
  "str_includes s sub = anywhere (prefix sub) s"

definition join :: "string \<Rightarrow> string list \<Rightarrow> string" where
  "join sep xs = (case xs of [] \<Rightarrow> [] | y # ys \<Rightarrow> y @ concat (map (\<lambda>z. sep @ z) ys))"

text \<open>
  The character classes of the regular expressions in the source: \<open>\w\<close> and \<open>\s\<close>
  (the ASCII part of it).
\<close>

definition isWordChar :: "char \<Rightarrow> bool" where
  "isWordChar c =
     (c \<in> set ''ABCDEFGHIJKLMNOPQRSTUVWXYZabcdefghijklmnopqrstuvwxyz0123456789_'')"

definition isSpace :: "char \<Rightarrow> bool" where
  "isSpace c = (c \<in> set [CHR 0x20, CHR 0x09, CHR 0x0A, CHR 0x0B, CHR 0x0C, CHR 0x0D])"

definition trim :: "string \<Rightarrow> string" where
  "trim s = rev (dropWhile isSpace (rev (dropWhile isSpace s)))"

section \<open>Values\<close>

text \<open>
  Data (\<open>any\<close>, \<open>Record<string, any>\<close>) is modelled by its JSON image, since every
  value the engine keeps goes through \<open>JSON.stringify\<close> into the store and back.
  Numbers are restricted to integers; an object is the list of its properties in
  insertion order.  \<open>anyval\<close> adds what an evaluation context or the result of an
  evaluated expression can be besides data: \<open>undefined\<close>, a host function
  (\<open>String\<close>, \<open>Array\<close>, ...) or a host object without enumerable properties
  (\<open>Math\<close>, \<open>JSON\<close>).
\<close>

datatype jsval =
    JNull
  | JBool bool
  | JNum int
  | JStr string
  | JArr "jsval list"
  | JObj "(string \<times> jsval) list"

datatype anyval = Undefined | Data jsval | HostFunction string | HostObject string

fun truthy :: "jsval \<Rightarrow> bool" where
  "truthy JNull = False"
| "truthy (JBool b) = b"
| "truthy (JNum n) = (n \<noteq> 0)"
| "truthy (JStr s) = (s \<noteq> [])"
| "truthy (JArr xs) = True"
| "truthy (JObj kvs) = True"

fun truthyAny :: "anyval \<Rightarrow> bool" where
  "truthyAny Undefined = False"
| "truthyAny (Data v) = truthy v"
| "truthyAny (HostFunction f) = True"
| "truthyAny (HostObject ob) = True"

text \<open>A property read \<open>v.k\<close> (or \<open>v?.k\<close>): \<open>None\<close> is \<open>undefined\<close>.\<close>

fun getProp :: "jsval \<Rightarrow> string \<Rightarrow> jsval option" where
  "getProp (JObj kvs) k = map_of kvs k"
| "getProp v k = None"

definition truthyOpt :: "jsval option \<Rightarrow> bool" where
  "truthyOpt v = (case v of None \<Rightarrow> False | Some x \<Rightarrow> truthy x)"

text \<open>
  Object spread and property assignment: \<open>{...base, ...extra}\<close> keeps the position of
  a property that is already there and appends a new one.
\<close>

definition spread :: "(string \<times> 'a) list \<Rightarrow> (string \<times> 'a) list \<Rightarrow> (string \<times> 'a) list" where
  "spread base extra = fold (\<lambda>(k, v). AList.update k v) extra base"

definition delete_key :: "string \<Rightarrow> (string \<times> 'a) list \<Rightarrow> (string \<times> 'a) list" where
  "delete_key k kvs = filter (\<lambda>(k', v). k' \<noteq> k) kvs"

text \<open>\<open>v || d\<close> for an optional number: a missing or zero value gives the default.\<close>

definition orDefault :: "'a::zero option \<Rightarrow> 'a \<Rightarrow> 'a" where
  "orDefault v d = (case v of None \<Rightarrow> d | Some x \<Rightarrow> if x = 0 then d else x)"

subsection \<open>Serialisation\<close>

definition digitChar :: "nat \<Rightarrow> char" where
  "digitChar d = ''0123456789'' ! d"

fun natToString :: "nat \<Rightarrow> string" where
  "natToString n =
     (if n < 10 then [digitChar n] else natToString (n div 10) @ [digitChar (n mod 10)])"

definition numberToString :: "int \<Rightarrow> string" where
  "numberToString i =
     (if i < 0 then CHR ''-'' # natToString (nat (- i)) else natToString (nat i))"

definition hexDigit :: "nat \<Rightarrow> char" where
  "hexDigit d = ''0123456789abcdef'' ! d"

definition escapeChar :: "char \<Rightarrow> string" where
  "escapeChar c =
     (if c = CHR 0x22 then [CHR 0x5C, CHR 0x22]
      else if c = CHR 0x5C then [CHR 0x5C, CHR 0x5C]
      else if c = CHR 0x08 then [CHR 0x5C, CHR ''b'']
      else if c = CHR 0x09 then [CHR 0x5C, CHR ''t'']
      else if c = CHR 0x0A then [CHR 0x5C, CHR ''n'']
      else if c = CHR 0x0C then [CHR 0x5C, CHR ''f'']
      else if c = CHR 0x0D then [CHR 0x5C, CHR ''r'']
      else if (of_char c :: nat) < 32 then
        [CHR 0x5C, CHR ''u'', CHR ''0'', CHR ''0'',
         hexDigit ((of_char c :: nat) div 16), hexDigit ((of_char c :: nat) mod 16)]
      else [c])"

definition quote :: "string \<Rightarrow> string" where
  "quote s = [CHR 0x22] @ concat (map escapeChar s) @ [CHR 0x22]"

fun JSON_stringify :: "jsval \<Rightarrow> string" where
  "JSON_stringify JNull = ''null''"
| "JSON_stringify (JBool b) = (if b then ''true'' else ''false'')"
| "JSON_stringify (JNum n) = numberToString n"
| "JSON_stringify (JStr s) = quote s"
| "JSON_stringify (JArr xs) = ''['' @ join '','' (map JSON_stringify xs) @ '']''"
| "JSON_stringify (JObj kvs) =
     ''{'' @ join '','' (map (\<lambda>(k, v). quote k @ '':'' @ JSON_stringify v) kvs) @ ''}''"

text \<open>
  \<open>JSON.stringify\<close> of anything: \<open>undefined\<close> and functions give \<open>undefined\<close>
  (\<open>None\<close>), a host object without enumerable properties gives \<open>{}\<close>.
\<close>

fun JSON_stringify_any :: "anyval \<Rightarrow> string option" where
  "JSON_stringify_any Undefined = None"
| "JSON_stringify_any (Data v) = Some (JSON_stringify v)"
| "JSON_stringify_any (HostFunction f) = None"
| "JSON_stringify_any (HostObject ob) = Some ''{}''"

section \<open>Expressions: placeholders, the unsafe-code check, evaluation\<close>

text \<open>
  An evaluation context binds names to values.  The host evaluator stands for
  \<open>new Function(...keys, `return ${expression}`)(...values)\<close>: it either throws
  (\<open>Inl\<close> the message) or returns a value.
\<close>

type_synonym evalContext = "(string \<times> anyval) list"

type_synonym evaluator = "string \<Rightarrow> evalContext \<Rightarrow> string + anyval"

definition lookupCtx :: "evalContext \<Rightarrow> string \<Rightarrow> anyval" where
  "lookupCtx ctx name = (case map_of ctx name of None \<Rightarrow> Undefined | Some v \<Rightarrow> v)"

text \<open>
  A placeholder \<open>opn \w+ cls\<close> at the start of \<open>s\<close>: its name and what follows it.
  \<open>replaceAll\<close> is \<open>String.prototype.replace\<close> with a global regular expression of
  this shape and a callback that receives the matched text and the name.
\<close>

definition matchPlaceholder :: "string \<Rightarrow> string \<Rightarrow> string \<Rightarrow> (string \<times> string) option" where
  "matchPlaceholder opn cls s =
     (if prefix opn s then
        (let body = drop (length opn) s;
             name = takeWhile isWordChar body;
             after = dropWhile isWordChar body
         in if name \<noteq> [] \<and> prefix cls after
            then Some (name, drop (length cls) after) else None)
      else None)"

lemma matchPlaceholder_shorter:
  "matchPlaceholder opn cls s = Some (name, rest) \<Longrightarrow> length rest < length s"
proof -
  assume a: "matchPlaceholder opn cls s = Some (name, rest)"
  let ?body = "drop (length opn) s"
  from a have n: "takeWhile isWordChar ?body \<noteq> []"
    and r: "rest = drop (length cls) (dropWhile isWordChar ?body)"
    by (auto simp: matchPlaceholder_def Let_def split: if_splits)
  have "length (takeWhile isWordChar ?body) + length (dropWhile isWordChar ?body) = length ?body"
    by (metis length_append takeWhile_dropWhile_id)
  with n have "length (dropWhile isWordChar ?body) < length ?body"
    by (cases "takeWhile isWordChar ?body") auto
  with r show ?thesis by simp
qed

function replaceAll ::
  "string \<Rightarrow> string \<Rightarrow> (string \<Rightarrow> string \<Rightarrow> string) \<Rightarrow> string \<Rightarrow> string" where
  "replaceAll opn cls f s =
     (case s of
        [] \<Rightarrow> []
      | c # cs \<Rightarrow>
          (case matchPlaceholder opn cls s of
             Some (name, rest) \<Rightarrow> f (opn @ name @ cls) name @ replaceAll opn cls f rest
           | None \<Rightarrow> c # replaceAll opn cls f cs))"
  by pat_completeness auto
termination
  by (relation "measure (\<lambda>(opn, cls, f, s). length s)")
     (auto dest: matchPlaceholder_shorter)

text \<open>
  The callback of \<open>replaceVariables\<close>:
  \<open>value !== undefined ? JSON.stringify(value) : match\<close>; a callback result of
  \<open>undefined\<close> is inserted as the text \<open>undefined\<close>.
\<close>

definition substitute :: "evalContext \<Rightarrow> string \<Rightarrow> string \<Rightarrow> string" where
  "substitute ctx matched variableName =
     (case lookupCtx ctx variableName of
        Undefined \<Rightarrow> matched
      | v \<Rightarrow> (case JSON_stringify_any v of None \<Rightarrow> ''undefined'' | Some t \<Rightarrow> t))"

definition replaceVariables :: "string \<Rightarrow> evalContext \<Rightarrow> string" where
  "replaceVariables expression ctx =
     replaceAll ''${'' ''}'' (substitute ctx)
       (replaceAll ''{{'' ''}}'' (substitute ctx) expression)"

text \<open>
  The patterns of \<open>containsUnsafeCode\<close>: a keyword followed by optional white space
  and an opening parenthesis (\<open>/eval\s*\(/\<close>), a keyword followed by white space
  (\<open>/import\s+/\<close>), and plain substrings.
\<close>

definition kwCall :: "string \<Rightarrow> string \<Rightarrow> bool" where
  "kwCall kw t = (prefix kw t \<and> prefix ''('' (dropWhile isSpace (drop (length kw) t)))"

definition kwSpace :: "string \<Rightarrow> string \<Rightarrow> bool" where
  "kwSpace kw t =
     (prefix kw t \<and> (case drop (length kw) t of [] \<Rightarrow> False | c # cs \<Rightarrow> isSpace c))"

definition containsUnsafeCode :: "string \<Rightarrow> bool" where
  "containsUnsafeCode expression =
     list_ex (\<lambda>pattern. pattern expression)
       [anywhere (kwCall ''require''),
        anywhere (kwSpace ''import''),
        anywhere (kwCall ''eval''),
        anywhere (kwCall ''Function''),
        anywhere (kwCall ''setTimeout''),
        anywhere (kwCall ''setInterval''),
        (\<lambda>e. str_includes e ''process.''),
        (\<lambda>e. str_includes e ''global.''),
        (\<lambda>e. str_includes e ''window.''),
        (\<lambda>e. str_includes e ''document.''),
        (\<lambda>e. str_includes e ''console.''),
        (\<lambda>e. str_includes e ''__proto__''),
        (\<lambda>e. str_includes e ''constructor''),
        (\<lambda>e. str_includes e ''prototype'')]"

definition safeEval :: "evaluator \<Rightarrow> string \<Rightarrow> evalContext \<Rightarrow> string + anyval" where
  "safeEval ev expression ctx =
     (if containsUnsafeCode expression then Inl ''Expression contains unsafe code''
      else (case ev expression ctx of
              Inl msg \<Rightarrow> Inl (''Expression evaluation failed: '' @ msg)
            | Inr v \<Rightarrow> Inr v))"

section \<open>The data model (types/workflow.ts)\<close>

datatype NodeType = Trigger | Action | Agent | HumanApproval | Condition | Loop | SpawnAgent

datatype ExecutionStatus = Running | Paused | Completed | Failed | Cancelled

datatype NodeStatus = NPending | NRunning | NCompleted | NFailed | NSkipped

text \<open>
  \<open>node.data.config\<close> is a \<open>Record<string, any>\<close> that each executor casts to the
  configuration of its own kind.  It is modelled as the record of the properties the
  modelled executors read, each of them possibly missing.  The position of a node and
  the properties read only by the action and agent executors are left out.
\<close>

record NodeConfig =
  c_triggerType :: "string option"
  c_webhookPath :: "string option"
  c_scheduleExpression :: "string option"
  c_maxIterations :: "int option"
  c_exitCondition :: "string option"
  c_loopVariable :: "string option"
  c_expression :: "string option"
  c_approvalMessage :: "string option"
  c_approverEmail :: "string option"
  c_timeoutMinutes :: "int option"
  c_agentPrompt :: "string option"
  c_maxAgents :: "int option"
  c_aggregationStrategy :: "string option"
  c_customAggregation :: "string option"

definition emptyConfig :: NodeConfig where
  "emptyConfig =
     \<lparr> c_triggerType = None, c_webhookPath = None, c_scheduleExpression = None,
       c_maxIterations = None, c_exitCondition = None, c_loopVariable = None,
       c_expression = None, c_approvalMessage = None, c_approverEmail = None,
       c_timeoutMinutes = None, c_agentPrompt = None, c_maxAgents = None,
       c_aggregationStrategy = None, c_customAggregation = None \<rparr>"

record WorkflowNode =
  n_id :: string
  n_type :: NodeType
  n_label :: string
  n_config :: NodeConfig

record WorkflowEdge =
  e_id :: string
  e_source :: string
  e_target :: string
  e_condition :: "string option"

record Workflow =
  w_id :: string
  w_nodes :: "WorkflowNode list"
  w_edges :: "WorkflowEdge list"

text \<open>The execution state.  The three time stamps are not modelled.\<close>

record ExecutionContext =
  workflowId :: string
  executionId :: string
  status :: ExecutionStatus
  currentNodeId :: "string option"
  stepResults :: "(string \<times> jsval) list"
  variables :: "(string \<times> jsval) list"
  error :: "string option"
  nodeStatuses :: "(string \<times> NodeStatus) list"
  nodeVisitCounts :: "(string \<times> nat) list"
  parentExecutionId :: "string option"
  childExecutionIds :: "string list"

record ApprovalRequest =
  a_executionId :: string
  a_nodeId :: string
  a_message :: string
  a_data :: jsval
  a_timeoutAt :: "int option"

text \<open>What the engine keeps of the result of a node executor.\<close>

record NodeResult =
  nr_success :: bool
  nr_data :: jsval
  nr_error :: "string option"

text \<open>A truthy optional string: present and not empty.\<close>

definition present :: "string option \<Rightarrow> bool" where
  "present s = (case s of None \<Rightarrow> False | Some t \<Rightarrow> t \<noteq> [])"

definition errorOf :: "string \<Rightarrow> string list \<Rightarrow> string" where
  "errorOf what errors = what @ join '', '' errors"

definition statusString :: "ExecutionStatus \<Rightarrow> string" where
  "statusString st =
     (case st of Running \<Rightarrow> ''running'' | Paused \<Rightarrow> ''paused'' | Completed \<Rightarrow> ''completed''
      | Failed \<Rightarrow> ''failed'' | Cancelled \<Rightarrow> ''cancelled'')"

definition nodeStatusString :: "NodeStatus \<Rightarrow> string" where
  "nodeStatusString st =
     (case st of NPending \<Rightarrow> ''pending'' | NRunning \<Rightarrow> ''running''
      | NCompleted \<Rightarrow> ''completed'' | NFailed \<Rightarrow> ''failed'' | NSkipped \<Rightarrow> ''skipped'')"

definition optProp :: "string \<Rightarrow> 'a option \<Rightarrow> ('a \<Rightarrow> jsval) \<Rightarrow> (string \<times> jsval) list" where
  "optProp k v f = (case v of None \<Rightarrow> [] | Some x \<Rightarrow> [(k, f x)])"

definition contextJson :: "ExecutionContext \<Rightarrow> jsval" where
  "contextJson ctx =
     JObj ([(''workflowId'', JStr (workflowId ctx)),
            (''executionId'', JStr (executionId ctx)),
            (''status'', JStr (statusString (status ctx))),
            (''currentNodeId'', (case currentNodeId ctx of None \<Rightarrow> JNull | Some i \<Rightarrow> JStr i)),
            (''stepResults'', JObj (stepResults ctx)),
            (''variables'', JObj (variables ctx)),
            (''nodeStatuses'',
               JObj (map (\<lambda>(k, v). (k, JStr (nodeStatusString v))) (nodeStatuses ctx))),
            (''nodeVisitCounts'',
               JObj (map (\<lambda>(k, v). (k, JNum (int v))) (nodeVisitCounts ctx))),
            (''childExecutionIds'', JArr (map JStr (childExecutionIds ctx)))]
           @ optProp ''error'' (error ctx) JStr
           @ optProp ''parentExecutionId'' (parentExecutionId ctx) JStr)"

text \<open>\<open>context.nodeVisitCounts[id] || 0\<close>\<close>

definition visitCount :: "ExecutionContext \<Rightarrow> string \<Rightarrow> nat" where
  "visitCount ctx i = (case map_of (nodeVisitCounts ctx) i of None \<Rightarrow> 0 | Some c \<Rightarrow> c)"

section \<open>The durable store (the Redis client)\<close>

text \<open>
  One map per key prefix (\<open>workflow:\<close>, \<open>execution:\<close>, \<open>approval:\<close>).  A value read
  back is the value saved; the expiry of entries after their time to live is not
  modelled.
\<close>

record Store =
  s_workflows :: "string \<rightharpoonup> Workflow"
  s_executions :: "string \<rightharpoonup> ExecutionContext"
  s_approvals :: "string \<rightharpoonup> ApprovalRequest"

definition saveExecution :: "Store \<Rightarrow> ExecutionContext \<Rightarrow> Store" where
  "saveExecution store execution =
     store\<lparr> s_executions := (s_executions store)(executionId execution \<mapsto> execution) \<rparr>"

definition getExecution :: "Store \<Rightarrow> string \<Rightarrow> ExecutionContext option" where
  "getExecution store eid = s_executions store eid"

definition getWorkflow :: "Store \<Rightarrow> string \<Rightarrow> Workflow option" where
  "getWorkflow store wid = s_workflows store wid"

text \<open>
  \<open>updateExecutionStatus\<close> throws when the execution is not in the store; otherwise
  it saves \<open>{...execution, ...updates, status}\<close>.  The partial record \<open>updates\<close> is
  given as the function that overwrites the fields it names.
\<close>

definition updateExecutionStatus ::
  "Store \<Rightarrow> string \<Rightarrow> ExecutionStatus \<Rightarrow> (ExecutionContext \<Rightarrow> ExecutionContext)
     \<Rightarrow> string + Store" where
  "updateExecutionStatus store eid st updates =
     (case getExecution store eid of
        None \<Rightarrow> Inl (''Execution '' @ eid @ '' not found'')
      | Some execution \<Rightarrow> Inr (saveExecution store ((updates execution)\<lparr> status := st \<rparr>)))"

definition saveApprovalRequest :: "Store \<Rightarrow> ApprovalRequest \<Rightarrow> Store" where
  "saveApprovalRequest store approval =
     store\<lparr> s_approvals := (s_approvals store)(a_executionId approval \<mapsto> approval) \<rparr>"

definition getApprovalRequest :: "Store \<Rightarrow> string \<Rightarrow> ApprovalRequest option" where
  "getApprovalRequest store eid = s_approvals store eid"

definition deleteApprovalRequest :: "Store \<Rightarrow> string \<Rightarrow> Store" where
  "deleteApprovalRequest store eid =
     store\<lparr> s_approvals := (s_approvals store)(eid := None) \<rparr>"

section \<open>The host\<close>

text \<open>
  What the modelled code takes from outside: the evaluator of expressions,
  \<open>JSON.parse\<close>, the clock (read once per modelled operation) with
  \<open>toISOString\<close>, a fresh execution id, and the executors of the node kinds whose
  work is an outbound call (action, agent and agent fan-out).  Such an executor never throws past its
  own \<open>catch\<close>; its result may depend on everything in the execution context, which
  differs from one dispatch to the next by the visit counts.
\<close>

record Host =
  h_eval :: evaluator
  h_parse :: "string \<Rightarrow> string + jsval"
  h_now :: int
  h_iso :: "int \<Rightarrow> string"
  h_freshId :: string
  h_dispatch :: "WorkflowNode \<Rightarrow> ExecutionContext \<Rightarrow> NodeResult"

section \<open>Trigger executor\<close>

definition TriggerExecutor_execute ::
  "Host \<Rightarrow> WorkflowNode \<Rightarrow> (string \<times> jsval) list \<Rightarrow> NodeResult" where
  "TriggerExecutor_execute host node triggerData =
     (let config = n_config node;
          stamped = (\<lambda>kind extra.
            \<lparr> nr_success = True,
              nr_data = JObj (spread triggerData
                                ([(''triggerType'', JStr kind),
                                  (''timestamp'', JStr (h_iso host (h_now host)))] @ extra)),
              nr_error = None \<rparr>)
      in if c_triggerType config = Some ''webhook'' then
           stamped ''webhook'' (optProp ''webhookPath'' (c_webhookPath config) JStr)
         else if c_triggerType config = Some ''manual'' then
           stamped ''manual'' [(''initiatedBy'', JStr ''user'')]
         else if c_triggerType config = Some ''schedule'' then
           stamped ''schedule''
             (optProp ''scheduleExpression'' (c_scheduleExpression config) JStr)
         else
           \<lparr> nr_success = False, nr_data = JObj [],
             nr_error = Some (''Unsupported trigger type: ''
                              @ (case c_triggerType config of
                                   None \<Rightarrow> ''undefined'' | Some t \<Rightarrow> t)) \<rparr>)"

section \<open>Condition executor\<close>

record ConditionResult =
  cr_success :: bool
  cr_data :: jsval
  cr_error :: "string option"
  cr_result :: bool
  cr_evaluatedExpression :: string

text \<open>
  The syntax check of \<open>validateConfig\<close> builds and calls the function of the
  expression, every \<open>{{name}}\<close> replaced by \<open>true\<close>, with the single parameter
  \<open>test\<close>; whatever it throws makes the configuration invalid.
\<close>

definition ConditionExecutor_validateConfig :: "evaluator \<Rightarrow> NodeConfig \<Rightarrow> string list" where
  "ConditionExecutor_validateConfig ev config =
     (if \<not> present (c_expression config) then [''Expression is required''] else [])
     @ (case c_expression config of
          None \<Rightarrow> []
        | Some e \<Rightarrow> if e \<noteq> [] \<and> trim e = [] then [''Expression cannot be empty''] else [])
     @ (case c_expression config of
          None \<Rightarrow> []
        | Some e \<Rightarrow>
            if e \<noteq> [] then
              (case ev (replaceAll ''{{'' ''}}'' (\<lambda>matched name. ''true'') e)
                       [(''test'', Data (JObj [(''test'', JBool True)]))] of
                 Inl msg \<Rightarrow> [''Invalid expression syntax: '' @ msg]
               | Inr v \<Rightarrow> [])
            else [])"

definition dataCtx :: "(string \<times> jsval) list \<Rightarrow> evalContext" where
  "dataCtx kvs = map (\<lambda>(k, v). (k, Data v)) kvs"

definition createSafeContext :: "int \<Rightarrow> ExecutionContext \<Rightarrow> evalContext" where
  "createSafeContext now context =
     spread
       (spread
          (spread
             [(''executionId'', Data (JStr (executionId context))),
              (''workflowId'', Data (JStr (workflowId context))),
              (''status'', Data (JStr (statusString (status context))))]
             (dataCtx (variables context)))
          (dataCtx (stepResults context)))
       [(''now'', HostFunction ''now''),
        (''timestamp'', Data (JNum now)),
        (''Math'', HostObject ''Math''),
        (''String'', HostFunction ''String''),
        (''Number'', HostFunction ''Number''),
        (''Boolean'', HostFunction ''Boolean''),
        (''Array'', HostFunction ''Array''),
        (''Object'', HostFunction ''Object''),
        (''JSON'', HostObject ''JSON'')]"

text \<open>Everything \<open>evaluateCondition\<close> does is inside its \<open>try\<close>; the \<open>catch\<close> returns \<open>false\<close>.\<close>

definition evaluateCondition :: "evaluator \<Rightarrow> int \<Rightarrow> string \<Rightarrow> ExecutionContext \<Rightarrow> bool" where
  "evaluateCondition ev now expression context =
     (let safeContext = createSafeContext now context;
          processedExpression = replaceVariables expression safeContext
      in case safeEval ev processedExpression safeContext of
           Inl err \<Rightarrow> False
         | Inr v \<Rightarrow> truthyAny v)"

text \<open>
  \<open>sanitizeContext\<close> copies the context shallowly and deletes four keys from the
  \<open>variables\<close> object, which the copy shares with the context itself: the keys are gone
  from the execution context as well.
\<close>

definition sanitizeContext :: "ExecutionContext \<Rightarrow> ExecutionContext" where
  "sanitizeContext context =
     context\<lparr> variables :=
       delete_key ''key'' (delete_key ''secret'' (delete_key ''token''
         (delete_key ''password'' (variables context)))) \<rparr>"

definition ConditionExecutor_execute ::
  "Host \<Rightarrow> WorkflowNode \<Rightarrow> ExecutionContext \<Rightarrow> ConditionResult \<times> ExecutionContext" where
  "ConditionExecutor_execute host node context =
     (let config = n_config node;
          errors = ConditionExecutor_validateConfig (h_eval host) config
      in case (errors, c_expression config) of
           ([], Some expression) \<Rightarrow>
             (let result = evaluateCondition (h_eval host) (h_now host) expression context;
                  sanitized = sanitizeContext context
              in (\<lparr> cr_success = True,
                     cr_data = JObj [(''condition'', JStr expression),
                                     (''result'', JBool result),
                                     (''evaluatedAt'', JStr (h_iso host (h_now host))),
                                     (''context'', contextJson sanitized)],
                     cr_error = None,
                     cr_result = result,
                     cr_evaluatedExpression = expression \<rparr>, sanitized))
         | _ \<Rightarrow>
             (\<lparr> cr_success = False, cr_data = JObj [],
                 cr_error = Some (errorOf ''Invalid condition configuration: '' errors),
                 cr_result = False, cr_evaluatedExpression = [] \<rparr>, context))"

section \<open>Loop executor\<close>

record LoopResult =
  lr_success :: bool
  lr_data :: jsval
  lr_error :: "string option"
  lr_shouldContinue :: bool
  lr_iterationCount :: int
  lr_exitReason :: "string option"

definition LoopExecutor_validateConfig :: "evaluator \<Rightarrow> NodeConfig \<Rightarrow> string list" where
  "LoopExecutor_validateConfig ev config =
     (case c_maxIterations config of
        None \<Rightarrow> [''Max iterations must be at least 1'']
      | Some m \<Rightarrow> if m = 0 \<or> m < 1 then [''Max iterations must be at least 1''] else [])
     @ (case c_maxIterations config of
          None \<Rightarrow> []
        | Some m \<Rightarrow> if m > 1000 then [''Max iterations cannot exceed 1000''] else [])
     @ (case c_exitCondition config of
          None \<Rightarrow> []
        | Some e \<Rightarrow>
            if e \<noteq> [] \<and> trim e = [] then [''Exit condition cannot be empty if provided'']
            else [])
     @ (case c_exitCondition config of
          None \<Rightarrow> []
        | Some e \<Rightarrow>
            if e \<noteq> [] then
              (case ev (replaceAll ''{{'' ''}}'' (\<lambda>matched name. ''true'') e)
                       [(''iteration'', Data (JNum 1)), (''test'', Data (JBool True))] of
                 Inl msg \<Rightarrow> [''Invalid exit condition syntax: '' @ msg]
               | Inr v \<Rightarrow> [])
            else [])"

definition loopSafeContext :: "ExecutionContext \<Rightarrow> int \<Rightarrow> evalContext" where
  "loopSafeContext context iterationCount =
     spread (spread (dataCtx (variables context)) (dataCtx (stepResults context)))
       [(''iteration'', Data (JNum iterationCount)),
        (''loopCount'', Data (JNum iterationCount)),
        (''currentIteration'', Data (JNum iterationCount))]"

definition evaluateExitCondition ::
  "evaluator \<Rightarrow> string \<Rightarrow> ExecutionContext \<Rightarrow> int \<Rightarrow> bool" where
  "evaluateExitCondition ev condition context iterationCount =
     (let safeContext = loopSafeContext context iterationCount;
          processedCondition = replaceVariables condition safeContext
      in case safeEval ev processedCondition safeContext of
           Inl err \<Rightarrow> False
         | Inr v \<Rightarrow> truthyAny v)"

definition LoopExecutor_execute :: "Host \<Rightarrow> WorkflowNode \<Rightarrow> ExecutionContext \<Rightarrow> LoopResult" where
  "LoopExecutor_execute host node context =
     (let config = n_config node;
          errors = LoopExecutor_validateConfig (h_eval host) config
      in case (errors, c_maxIterations config) of
           ([], Some maxIterations) \<Rightarrow>
             (let currentIteration = int (visitCount context (n_id node));
                  newIterationCount = currentIteration + 1
              in if newIterationCount > maxIterations then
                   \<lparr> lr_success = True,
                     lr_data = JObj [(''iterationCount'', JNum newIterationCount),
                                     (''maxIterations'', JNum maxIterations),
                                     (''exitReason'', JStr ''max_iterations_reached'')],
                     lr_error = None, lr_shouldContinue = False,
                     lr_iterationCount = newIterationCount,
                     lr_exitReason = Some ''Maximum iterations reached'' \<rparr>
                 else if present (c_exitCondition config)
                       \<and> evaluateExitCondition (h_eval host)
                            (case c_exitCondition config of Some e \<Rightarrow> e | None \<Rightarrow> [])
                            context newIterationCount then
                   \<lparr> lr_success = True,
                     lr_data = JObj ([(''iterationCount'', JNum newIterationCount),
                                      (''exitReason'', JStr ''condition_met'')]
                                     @ optProp ''exitCondition'' (c_exitCondition config) JStr),
                     lr_error = None, lr_shouldContinue = False,
                     lr_iterationCount = newIterationCount,
                     lr_exitReason = Some ''Exit condition met'' \<rparr>
                 else
                   \<lparr> lr_success = True,
                     lr_data = JObj ([(''iterationCount'', JNum newIterationCount),
                                      (''maxIterations'', JNum maxIterations)]
                                     @ optProp ''loopVariable'' (c_loopVariable config) JStr
                                     @ (if present (c_loopVariable config)
                                        then [(''loopVariableValue'', JNum newIterationCount)]
                                        else [])
                                     @ [(''shouldContinue'', JBool True)]),
                     lr_error = None, lr_shouldContinue = True,
                     lr_iterationCount = newIterationCount,
                     lr_exitReason = None \<rparr>)
         | _ \<Rightarrow>
             \<lparr> lr_success = False, lr_data = JObj [],
               lr_error = Some (errorOf ''Invalid loop configuration: '' errors),
               lr_shouldContinue = False, lr_iterationCount = 0, lr_exitReason = None \<rparr>)"

section \<open>Approval executor\<close>

record ApprovalResult =
  ar_success :: bool
  ar_data :: jsval
  ar_error :: "string option"
  ar_requiresApproval :: bool
  ar_approvalId :: "string option"

text \<open>
  \<open>/^[^\s@]+@[^\s@]+\.[^\s@]+$/\<close>: no white space, exactly one \<open>@\<close> with something
  before it, and after it a dot that is neither the first nor the last character.
\<close>

definition isValidEmail :: "string \<Rightarrow> bool" where
  "isValidEmail email =
     (let localPart = takeWhile (\<lambda>c. c \<noteq> CHR ''@'') email;
          rest = dropWhile (\<lambda>c. c \<noteq> CHR ''@'') email
      in case rest of
           [] \<Rightarrow> False
         | a # domainPart \<Rightarrow>
             localPart \<noteq> [] \<and> \<not> list_ex isSpace email \<and> CHR ''@'' \<notin> set domainPart
             \<and> list_ex (\<lambda>i. domainPart ! i = CHR ''.'') [1 ..< length domainPart - 1])"

definition ApprovalExecutor_validateConfig :: "NodeConfig \<Rightarrow> string list" where
  "ApprovalExecutor_validateConfig config =
     (if \<not> present (c_approvalMessage config) then [''Approval message is required''] else [])
     @ (case c_timeoutMinutes config of
          None \<Rightarrow> []
        | Some t \<Rightarrow>
            if t \<noteq> 0 \<and> (t < 1 \<or> t > 10080)
            then [''Timeout must be between 1 minute and 1 week (10080 minutes)''] else [])
     @ (case c_approverEmail config of
          None \<Rightarrow> []
        | Some e \<Rightarrow>
            if e \<noteq> [] \<and> \<not> isValidEmail e then [''Invalid approver email format''] else [])"

definition approvalTimeoutAt :: "int \<Rightarrow> NodeConfig \<Rightarrow> int option" where
  "approvalTimeoutAt now config =
     (case c_timeoutMinutes config of
        None \<Rightarrow> None
      | Some t \<Rightarrow> if t = 0 then None else Some (now + t * 60 * 1000))"

definition newApprovalRequest ::
  "int \<Rightarrow> WorkflowNode \<Rightarrow> ExecutionContext \<Rightarrow> string \<Rightarrow> ApprovalRequest" where
  "newApprovalRequest now node context approvalMessage =
     \<lparr> a_executionId = executionId context,
       a_nodeId = n_id node,
       a_message = approvalMessage,
       a_data = JObj (spread (variables context)
                        [(''stepResults'', JObj (stepResults context)),
                         (''nodeLabel'', JStr (n_label node))]),
       a_timeoutAt = approvalTimeoutAt now (n_config node) \<rparr>"

definition approvalRequestJson :: "(int \<Rightarrow> string) \<Rightarrow> ApprovalRequest \<Rightarrow> jsval" where
  "approvalRequestJson toISO approval =
     JObj ([(''executionId'', JStr (a_executionId approval)),
            (''nodeId'', JStr (a_nodeId approval)),
            (''message'', JStr (a_message approval)),
            (''data'', a_data approval)]
           @ optProp ''timeoutAt'' (a_timeoutAt approval) (\<lambda>t. JStr (toISO t)))"

text \<open>
  \<open>execute\<close> saves the approval request first and then marks the stored execution
  paused; when the execution is not in the store, \<open>updateExecutionStatus\<close> throws and
  the \<open>catch\<close> returns the failure (the request stays saved).
\<close>

definition ApprovalExecutor_execute ::
  "Host \<Rightarrow> WorkflowNode \<Rightarrow> ExecutionContext \<Rightarrow> Store \<Rightarrow> ApprovalResult \<times> Store" where
  "ApprovalExecutor_execute host node context store =
     (let config = n_config node;
          errors = ApprovalExecutor_validateConfig config
      in case (errors, c_approvalMessage config) of
           ([], Some approvalMessage) \<Rightarrow>
             (let approvalRequest = newApprovalRequest (h_now host) node context approvalMessage;
                  store1 = saveApprovalRequest store approvalRequest
              in case updateExecutionStatus store1 (executionId context) Paused
                        (\<lambda>execution. execution
                           \<lparr> currentNodeId := Some (n_id node),
                             stepResults :=
                               spread (stepResults context)
                                 [(n_id node,
                                   JObj ([(''status'', JStr ''pending_approval''),
                                          (''message'', JStr approvalMessage),
                                          (''requestedAt'', JStr (h_iso host (h_now host)))]
                                         @ optProp ''timeoutAt'' (a_timeoutAt approvalRequest)
                                             (\<lambda>t. JStr (h_iso host t))))] \<rparr>) of
                   Inl msg \<Rightarrow>
                     (\<lparr> ar_success = False, ar_data = JObj [], ar_error = Some msg,
                         ar_requiresApproval = False, ar_approvalId = None \<rparr>, store1)
                 | Inr store2 \<Rightarrow>
                     (\<lparr> ar_success = True,
                         ar_data = JObj ([(''approvalRequest'',
                                             approvalRequestJson (h_iso host) approvalRequest),
                                          (''message'', JStr approvalMessage)]
                                         @ optProp ''timeoutAt'' (a_timeoutAt approvalRequest)
                                             (\<lambda>t. JStr (h_iso host t))),
                         ar_error = None, ar_requiresApproval = True,
                         ar_approvalId = Some (executionId context) \<rparr>, store2))
         | _ \<Rightarrow>
             (\<lparr> ar_success = False, ar_data = JObj [],
                 ar_error = Some (errorOf ''Invalid approval configuration: '' errors),
                 ar_requiresApproval = False, ar_approvalId = None \<rparr>, store))"

text \<open>
  \<open>approve\<close> and \<open>reject\<close> return \<open>{success, error?}\<close>: \<open>None\<close> is success,
  \<open>Some\<close> the error.
\<close>

definition approve ::
  "Host \<Rightarrow> Store \<Rightarrow> string \<Rightarrow> string \<Rightarrow> string option \<Rightarrow> jsval option
     \<Rightarrow> string option \<times> Store" where
  "approve host store eid approvedBy reason additionalData =
     (case getApprovalRequest store eid of
        None \<Rightarrow> (Some ''Approval request not found'', store)
      | Some approval \<Rightarrow>
          if (case a_timeoutAt approval of None \<Rightarrow> False | Some t \<Rightarrow> t < h_now host) then
            (Some ''Approval request has expired'', deleteApprovalRequest store eid)
          else
            (case updateExecutionStatus store eid Running
                    (\<lambda>execution. execution
                       \<lparr> stepResults :=
                           [(a_nodeId approval,
                             JObj ([(''status'', JStr ''approved''),
                                    (''approvedBy'', JStr approvedBy)]
                                   @ optProp ''reason'' reason JStr
                                   @ optProp ''additionalData'' additionalData (\<lambda>d. d)
                                   @ [(''approvedAt'', JStr (h_iso host (h_now host)))]))] \<rparr>) of
               Inl msg \<Rightarrow> (Some msg, store)
             | Inr store1 \<Rightarrow> (None, deleteApprovalRequest store1 eid)))"

definition reject ::
  "Host \<Rightarrow> Store \<Rightarrow> string \<Rightarrow> string \<Rightarrow> string option \<Rightarrow> string option \<times> Store" where
  "reject host store eid rejectedBy reason =
     (case getApprovalRequest store eid of
        None \<Rightarrow> (Some ''Approval request not found'', store)
      | Some approval \<Rightarrow>
          (case updateExecutionStatus store eid Failed
                  (\<lambda>execution. execution
                     \<lparr> stepResults :=
                         [(a_nodeId approval,
                           JObj ([(''status'', JStr ''rejected''),
                                  (''rejectedBy'', JStr rejectedBy)]
                                 @ optProp ''reason'' reason JStr
                                 @ [(''rejectedAt'', JStr (h_iso host (h_now host)))]))],
                       error :=
                         Some (''Approval rejected: ''
                               @ (if present reason
                                  then (case reason of Some r \<Rightarrow> r | None \<Rightarrow> [])
                                  else ''No reason provided'')) \<rparr>) of
             Inl msg \<Rightarrow> (Some msg, store)
           | Inr store1 \<Rightarrow> (None, deleteApprovalRequest store1 eid)))"

section \<open>Spawn executor: aggregation of the child results\<close>

text \<open>
  The children of a spawn node are calls to the language model and belong to the host;
  what is modelled is the aggregation of their results.  The result taken from a child
  is \<open>data?.result || data\<close>.
\<close>

definition childResult :: "jsval \<Rightarrow> jsval" where
  "childResult d = (case getProp d ''result'' of
                      None \<Rightarrow> d
                    | Some v \<Rightarrow> if truthy v then v else d)"

record MajorityResult =
  m_result :: jsval
  m_confidence :: "rat option"
  m_totalVotes :: nat

text \<open>
  \<open>resultCounts\<close> is a \<open>Map\<close> from the serialised result to its number of votes, in
  insertion order.  The first loop counts, the second picks the first key with the
  strictly largest count and parses it back.  The confidence is the quotient
  \<open>maxCount / results.length\<close>; \<open>None\<close> stands for the \<open>NaN\<close> of \<open>0 / 0\<close>.
\<close>

definition mapCount :: "(string \<times> nat) list \<Rightarrow> string \<Rightarrow> nat" where
  "mapCount resultCounts key = (case map_of resultCounts key of None \<Rightarrow> 0 | Some c \<Rightarrow> c)"

fun countVotes :: "(string \<times> nat) list \<Rightarrow> jsval list \<Rightarrow> (string \<times> nat) list" where
  "countVotes resultCounts [] = resultCounts"
| "countVotes resultCounts (result # rest) =
     (let key = JSON_stringify result
      in countVotes (AList.update key (mapCount resultCounts key + 1) resultCounts) rest)"

fun pickMajority ::
  "(string \<Rightarrow> string + jsval) \<Rightarrow> jsval \<times> nat \<Rightarrow> (string \<times> nat) list
     \<Rightarrow> string + (jsval \<times> nat)" where
  "pickMajority parse (majorityResult, maxCount) [] = Inr (majorityResult, maxCount)"
| "pickMajority parse (majorityResult, maxCount) ((key, count) # rest) =
     (if count > maxCount then
        (case parse key of
           Inl err \<Rightarrow> Inl err
         | Inr v \<Rightarrow> pickMajority parse (v, count) rest)
      else pickMajority parse (majorityResult, maxCount) rest)"

definition aggregateByMajority ::
  "(string \<Rightarrow> string + jsval) \<Rightarrow> jsval list \<Rightarrow> string + MajorityResult" where
  "aggregateByMajority parse results =
     (case pickMajority parse (JNull, 0) (countVotes [] results) of
        Inl err \<Rightarrow> Inl err
      | Inr (majorityResult, maxCount) \<Rightarrow>
          Inr \<lparr> m_result = majorityResult,
                m_confidence =
                  (if results = [] then None
                   else Some (of_nat maxCount / of_nat (length results))),
                m_totalVotes = length results \<rparr>)"

text \<open>
  The custom aggregation replaces \<open>{{name}}\<close> placeholders and hands the expression to
  the evaluator; when that throws, all results are returned.
\<close>

definition nthAny :: "jsval list \<Rightarrow> int \<Rightarrow> anyval" where
  "nthAny xs i = (if 0 \<le> i \<and> i < int (length xs) then Data (xs ! nat i) else Undefined)"

definition executeCustomAggregation :: "evaluator \<Rightarrow> jsval list \<Rightarrow> string \<Rightarrow> anyval" where
  "executeCustomAggregation ev results customAggregation =
     (let safeContext =
            [(''results'', Data (JArr results)),
             (''count'', Data (JNum (int (length results)))),
             (''first'', nthAny results 0),
             (''last'', nthAny results (int (length results) - 1)),
             (''Math'', HostObject ''Math''),
             (''JSON'', HostObject ''JSON''),
             (''Array'', HostFunction ''Array''),
             (''Object'', HostFunction ''Object'')];
          processedAggregation =
            replaceAll ''{{'' ''}}'' (substitute safeContext) customAggregation
      in case ev processedAggregation safeContext of
           Inl err \<Rightarrow> Data (JArr results)
         | Inr v \<Rightarrow> v)"

datatype Aggregated = Plain anyval | Majority MajorityResult

definition aggregateResults ::
  "Host \<Rightarrow> jsval list \<Rightarrow> string option \<Rightarrow> string option \<Rightarrow> string + Aggregated" where
  "aggregateResults host spawnData strategy customAggregation =
     (let results = map childResult spawnData
      in if strategy = Some ''first'' then Inr (Plain (nthAny results 0))
         else if strategy = Some ''all'' then Inr (Plain (Data (JArr results)))
         else if strategy = Some ''majority'' then
           (case aggregateByMajority (h_parse host) results of
              Inl err \<Rightarrow> Inl err
            | Inr m \<Rightarrow> Inr (Majority m))
         else if strategy = Some ''custom'' then
           (case customAggregation of
              None \<Rightarrow> Inr (Plain (Data (JArr results)))
            | Some c \<Rightarrow>
                if c \<noteq> [] then Inr (Plain (executeCustomAggregation (h_eval host) results c))
                else Inr (Plain (Data (JArr results))))
         else Inr (Plain (Data (JArr results))))"

section \<open>The execution engine\<close>

text \<open>
  Dispatch over the node kind.  The condition executor may change the variables of the
  context, the approval executor writes to the store, the trigger executor is given
  the trigger data, the other executors are the host's.  No executor throws past its own \<open>catch\<close>, so the \<open>catch\<close> of the engine's
  \<open>executeNode\<close> has nothing to do.
\<close>

definition executeNode ::
  "Host \<Rightarrow> Workflow \<Rightarrow> ExecutionContext \<Rightarrow> WorkflowNode \<Rightarrow> (string \<times> jsval) list \<Rightarrow> Store
     \<Rightarrow> NodeResult \<times> ExecutionContext \<times> Store" where
  "executeNode host workflow context node triggerData store =
     (case n_type node of
        Trigger \<Rightarrow> (TriggerExecutor_execute host node triggerData, context, store)
      | HumanApproval \<Rightarrow>
          (let (r, store') = ApprovalExecutor_execute host node context store
           in (\<lparr> nr_success = ar_success r, nr_data = ar_data r, nr_error = ar_error r \<rparr>,
               context, store'))
      | Condition \<Rightarrow>
          (let (r, context') = ConditionExecutor_execute host node context
           in (\<lparr> nr_success = cr_success r, nr_data = cr_data r, nr_error = cr_error r \<rparr>,
               context', store))
      | Loop \<Rightarrow>
          (let r = LoopExecutor_execute host node context
           in (\<lparr> nr_success = lr_success r, nr_data = lr_data r, nr_error = lr_error r \<rparr>,
               context, store))
      | _ \<Rightarrow> (h_dispatch host node context, context, store))"

definition findNode :: "Workflow \<Rightarrow> string \<Rightarrow> WorkflowNode option" where
  "findNode workflow i = find (\<lambda>node. n_id node = i) (w_nodes workflow)"

definition targetsOf :: "Workflow \<Rightarrow> WorkflowEdge list \<Rightarrow> WorkflowNode list" where
  "targetsOf workflow es = List.map_filter (\<lambda>edge. findNode workflow (e_target edge)) es"

definition outgoingEdges :: "Workflow \<Rightarrow> WorkflowNode \<Rightarrow> WorkflowEdge list" where
  "outgoingEdges workflow node = filter (\<lambda>edge. e_source edge = n_id node) (w_edges workflow)"

definition getNextNodes :: "Workflow \<Rightarrow> WorkflowNode \<Rightarrow> WorkflowNode list" where
  "getNextNodes workflow currentNode = targetsOf workflow (outgoingEdges workflow currentNode)"

definition getConditionalNextNodes ::
  "Workflow \<Rightarrow> WorkflowNode \<Rightarrow> bool \<Rightarrow> WorkflowNode list" where
  "getConditionalNextNodes workflow conditionNode conditionResult =
     (if conditionResult then
        targetsOf workflow
          (filter (\<lambda>edge. \<not> present (e_condition edge) \<or> e_condition edge = Some ''true''
                          \<or> e_condition edge = Some ''True'')
             (outgoingEdges workflow conditionNode))
      else
        targetsOf workflow
          (filter (\<lambda>edge. e_condition edge = Some ''false'' \<or> e_condition edge = Some ''False'')
             (outgoingEdges workflow conditionNode)))"

text \<open>The exit-edge selection of the loop executor (\<open>LoopExecutor.getNextNodes\<close>).\<close>

definition LoopExecutor_getNextNodes ::
  "WorkflowNode \<Rightarrow> Workflow \<Rightarrow> bool \<Rightarrow> WorkflowNode list" where
  "LoopExecutor_getNextNodes node workflow shouldContinue =
     (if shouldContinue then
        targetsOf workflow
          (filter (\<lambda>edge. e_condition edge = Some ''continue'' \<or> e_condition edge = Some ''true''
                          \<or> \<not> present (e_condition edge))
             (outgoingEdges workflow node))
      else
        targetsOf workflow
          (filter (\<lambda>edge. e_condition edge = Some ''exit'' \<or> e_condition edge = Some ''false'')
             (outgoingEdges workflow node)))"

text \<open>
  The state of the traversal loop of \<open>executeFromNode\<close>: the store, the execution
  context, the work stack (its head is the next node), the set of nodes visited in this
  call, and the node last taken from the stack.
\<close>

record EngineState =
  g_store :: Store
  g_context :: ExecutionContext
  g_stack :: "WorkflowNode list"
  g_visited :: "string set"
  g_current :: "WorkflowNode option"

datatype LoopExit = Continue EngineState | Break EngineState | Throw string EngineState

definition iterationLimitMessage :: "int \<Rightarrow> string \<Rightarrow> string" where
  "iterationLimitMessage maxIterations i =
     ''Maximum iterations ('' @ numberToString maxIterations @ '') exceeded for node '' @ i"

text \<open>
  The body of the \<open>while\<close> loop, after \<open>currentNode\<close> was taken from the stack, in
  three parts: the bookkeeping before the node is executed, the execution, and what
  follows from its result.
\<close>

definition enterNode :: "ExecutionContext \<Rightarrow> string \<Rightarrow> ExecutionContext" where
  "enterNode context i =
     context\<lparr> nodeVisitCounts :=
                AList.update i (visitCount context i + 1) (nodeVisitCounts context),
              currentNodeId := Some i,
              nodeStatuses := AList.update i NRunning (nodeStatuses context) \<rparr>"

definition afterNode ::
  "Workflow \<Rightarrow> WorkflowNode \<Rightarrow> NodeResult \<Rightarrow> ExecutionContext \<Rightarrow> Store \<Rightarrow> EngineState
     \<Rightarrow> LoopExit" where
  "afterNode workflow currentNode nodeResult context store st =
     (let i = n_id currentNode
      in if \<not> nr_success nodeResult then
           Break (st\<lparr> g_store := store,
                      g_context := context
                        \<lparr> status := Failed,
                          error := nr_error nodeResult,
                          nodeStatuses := AList.update i NFailed (nodeStatuses context) \<rparr> \<rparr>)
         else
           (let context' = context
                  \<lparr> stepResults := AList.update i (nr_data nodeResult) (stepResults context),
                    nodeStatuses := AList.update i NCompleted (nodeStatuses context) \<rparr>
            in if n_type currentNode = HumanApproval then
                 Break (st\<lparr> g_store := store, g_context := context'\<lparr> status := Paused \<rparr> \<rparr>)
               else if n_type currentNode = Loop
                       \<and> truthyOpt (getProp (nr_data nodeResult) ''shouldContinue'') then
                 Continue (st\<lparr> g_store := store, g_context := context',
                               g_stack := currentNode # g_stack st \<rparr>)
               else
                 (let nextNodes = getNextNodes workflow currentNode;
                      pushed =
                        (if n_type currentNode = Condition then
                           getConditionalNextNodes workflow currentNode
                             (truthyOpt (getProp (nr_data nodeResult) ''result''))
                         else nextNodes)
                  in Continue (st\<lparr> g_store := saveExecution store context',
                                    g_context := context',
                                    g_stack := pushed @ g_stack st \<rparr>))))"

definition loopBody ::
  "int \<Rightarrow> Host \<Rightarrow> Workflow \<Rightarrow> (string \<times> jsval) list \<Rightarrow> WorkflowNode \<Rightarrow> EngineState
     \<Rightarrow> LoopExit" where
  "loopBody maxIterations host workflow triggerData currentNode st =
     (let context = g_context st; i = n_id currentNode
      in if i \<in> g_visited st \<and> int (visitCount context i) \<ge> maxIterations then
           Throw (iterationLimitMessage maxIterations i) st
         else
           (let context1 = enterNode context i;
                store1 = saveExecution (g_store st) context1;
                (nodeResult, context2, store2) =
                  executeNode host workflow context1 currentNode triggerData store1
            in afterNode workflow currentNode nodeResult context2 store2
                 (st\<lparr> g_visited := insert i (g_visited st) \<rparr>)))"

subsection \<open>The traversal loop terminates\<close>

text \<open>
  Every node the loop takes from the stack is the start node or a node of the workflow,
  so the identifiers it can meet are finitely many.  For each of them the loop has a
  budget: what is left of the iteration limit, and one more visit while the node has not
  been visited in this call.  Every run of the body that continues uses up one unit
  of the budget of the node it ran.
\<close>

lemma find_in_set: "find P xs = Some x \<Longrightarrow> x \<in> set xs"
  by (induction xs) (auto split: if_splits)

lemma targetsOf_subset: "set (targetsOf workflow es) \<subseteq> set (w_nodes workflow)"
  by (auto simp: targetsOf_def findNode_def List.map_filter_def dest: find_in_set)

lemma getNextNodes_subset: "set (getNextNodes workflow node) \<subseteq> set (w_nodes workflow)"
  by (simp add: getNextNodes_def targetsOf_subset)

lemma getConditionalNextNodes_subset:
  "set (getConditionalNextNodes workflow node b) \<subseteq> set (w_nodes workflow)"
  by (simp add: getConditionalNextNodes_def targetsOf_subset)

lemma executeNode_counts:
  "executeNode host workflow context node triggerData store = (r, context', store')
     \<Longrightarrow> nodeVisitCounts context' = nodeVisitCounts context"
  by (auto simp: executeNode_def ConditionExecutor_execute_def sanitizeContext_def Let_def
           split: NodeType.splits prod.splits list.splits option.splits)

lemma afterNode_step:
  assumes "afterNode workflow node r context store st = Continue st'
           \<or> afterNode workflow node r context store st = Break st'"
  shows "g_visited st' = g_visited st"
    and "nodeVisitCounts (g_context st') = nodeVisitCounts context"
    and "set (g_stack st') \<subseteq> set (g_stack st) \<union> {node} \<union> set (w_nodes workflow)"
  using assms
  by (auto simp: afterNode_def Let_def split: if_splits
           dest!: subsetD[OF getConditionalNextNodes_subset] subsetD[OF getNextNodes_subset])

lemma loopBody_step:
  assumes "loopBody maxIterations host workflow triggerData node st = Continue st'
           \<or> loopBody maxIterations host workflow triggerData node st = Break st'"
  shows "g_visited st' = insert (n_id node) (g_visited st)"
    and "nodeVisitCounts (g_context st')
           = AList.update (n_id node) (visitCount (g_context st) (n_id node) + 1)
               (nodeVisitCounts (g_context st))"
    and "set (g_stack st') \<subseteq> set (g_stack st) \<union> {node} \<union> set (w_nodes workflow)"
    and "\<not> (n_id node \<in> g_visited st
            \<and> int (visitCount (g_context st) (n_id node)) \<ge> maxIterations)"
proof -
  let ?c1 = "enterNode (g_context st) (n_id node)"
  obtain r c2 s2 where ex: "executeNode host workflow ?c1 node triggerData
      (saveExecution (g_store st) ?c1) = (r, c2, s2)"
    by (metis prod_cases3)
  have c2: "nodeVisitCounts c2 = nodeVisitCounts ?c1"
    using executeNode_counts[OF ex] .
  from assms show nolimit: "\<not> (n_id node \<in> g_visited st
            \<and> int (visitCount (g_context st) (n_id node)) \<ge> maxIterations)"
    by (auto simp: loopBody_def)
  with assms ex have af: "afterNode workflow node r c2 s2
        (st\<lparr> g_visited := insert (n_id node) (g_visited st) \<rparr>) = Continue st'
      \<or> afterNode workflow node r c2 s2
        (st\<lparr> g_visited := insert (n_id node) (g_visited st) \<rparr>) = Break st'"
    by (auto simp: loopBody_def Let_def)
  from afterNode_step(1)[OF af] show "g_visited st' = insert (n_id node) (g_visited st)"
    by simp
  from afterNode_step(2)[OF af] c2 show "nodeVisitCounts (g_context st')
           = AList.update (n_id node) (visitCount (g_context st) (n_id node) + 1)
               (nodeVisitCounts (g_context st))"
    by (simp add: enterNode_def)
  from afterNode_step(3)[OF af]
  show "set (g_stack st') \<subseteq> set (g_stack st) \<union> {node} \<union> set (w_nodes workflow)"
    by simp
qed

definition remaining :: "int \<Rightarrow> EngineState \<Rightarrow> string \<Rightarrow> nat" where
  "remaining maxIterations st i =
     (if i \<in> g_visited st then 0 else 1)
     + nat (maxIterations - int (visitCount (g_context st) i))"

definition universe :: "Workflow \<Rightarrow> EngineState \<Rightarrow> string set" where
  "universe workflow st = n_id ` (set (g_stack st) \<union> set (w_nodes workflow))"

definition loopMeasure :: "int \<Rightarrow> Workflow \<Rightarrow> EngineState \<Rightarrow> nat" where
  "loopMeasure maxIterations workflow st =
     (\<Sum>i\<in>universe workflow st. remaining maxIterations st i)"

lemma finite_universe: "finite (universe workflow st)"
  by (simp add: universe_def)

lemma loopMeasure_decreases:
  assumes stack: "g_stack st = node # rest"
    and body: "loopBody maxIterations host workflow triggerData node
                 (st\<lparr> g_stack := rest, g_current := Some node \<rparr>) = Continue st'"
  shows "loopMeasure maxIterations workflow st' < loopMeasure maxIterations workflow st"
proof -
  let ?st0 = "st\<lparr> g_stack := rest, g_current := Some node \<rparr>"
  let ?i = "n_id node"
  from body have b: "loopBody maxIterations host workflow triggerData node ?st0 = Continue st'
                     \<or> loopBody maxIterations host workflow triggerData node ?st0 = Break st'"
    by simp
  have vis: "g_visited st' = insert ?i (g_visited st)"
    using loopBody_step(1)[OF b] by simp
  have cnt: "visitCount (g_context st') j
               = (if j = ?i then visitCount (g_context st) ?i + 1
                  else visitCount (g_context st) j)" for j
    using loopBody_step(2)[OF b] by (simp add: visitCount_def update_conv')
  have sub: "universe workflow st' \<subseteq> universe workflow st"
    using loopBody_step(3)[OF b] stack by (auto simp: universe_def)
  have nolimit: "\<not> (?i \<in> g_visited st
                     \<and> int (visitCount (g_context st) ?i) \<ge> maxIterations)"
    using loopBody_step(4)[OF b] by simp
  have le: "remaining maxIterations st' j \<le> remaining maxIterations st j" for j
    by (auto simp: remaining_def vis cnt)
  have lt: "remaining maxIterations st' ?i < remaining maxIterations st ?i"
    using nolimit by (auto simp: remaining_def vis cnt)
  have mem: "?i \<in> universe workflow st"
    using stack by (simp add: universe_def)
  have "loopMeasure maxIterations workflow st'
          \<le> (\<Sum>i\<in>universe workflow st. remaining maxIterations st' i)"
    unfolding loopMeasure_def by (rule sum_mono2[OF finite_universe sub]) simp
  also have "\<dots> < (\<Sum>i\<in>universe workflow st. remaining maxIterations st i)"
    by (rule sum_strict_mono_ex1[OF finite_universe]) (use le lt mem in auto)
  finally show ?thesis by (simp add: loopMeasure_def)
qed

text \<open>
  The \<open>while\<close> loop.  It ends when the stack is empty or the status is no longer
  \<open>running\<close>, when the body breaks, or when the body throws into the \<open>catch\<close> of
  \<open>executeFromNode\<close>.
\<close>

datatype LoopEnd = Finished EngineState | Caught string EngineState

function executeLoop ::
  "int \<Rightarrow> Host \<Rightarrow> Workflow \<Rightarrow> (string \<times> jsval) list \<Rightarrow> EngineState \<Rightarrow> LoopEnd" where
  "executeLoop maxIterations host workflow triggerData st =
     (case g_stack st of
        [] \<Rightarrow> Finished st
      | currentNode # rest \<Rightarrow>
          if status (g_context st) \<noteq> Running then Finished st
          else
            (case loopBody maxIterations host workflow triggerData currentNode
                    (st\<lparr> g_stack := rest, g_current := Some currentNode \<rparr>) of
               Continue st' \<Rightarrow> executeLoop maxIterations host workflow triggerData st'
             | Break st' \<Rightarrow> Finished st'
             | Throw msg st' \<Rightarrow> Caught msg st'))"
  by pat_completeness auto
termination
  by (relation "measure (\<lambda>(maxIterations, host, workflow, triggerData, st).
                  loopMeasure maxIterations workflow st)")
     (auto intro: loopMeasure_decreases)

text \<open>The number of times the loop runs its body, by the same recursion.\<close>

function loopIterations ::
  "int \<Rightarrow> Host \<Rightarrow> Workflow \<Rightarrow> (string \<times> jsval) list \<Rightarrow> EngineState \<Rightarrow> nat" where
  "loopIterations maxIterations host workflow triggerData st =
     (case g_stack st of
        [] \<Rightarrow> 0
      | currentNode # rest \<Rightarrow>
          if status (g_context st) \<noteq> Running then 0
          else
            (case loopBody maxIterations host workflow triggerData currentNode
                    (st\<lparr> g_stack := rest, g_current := Some currentNode \<rparr>) of
               Continue st' \<Rightarrow> Suc (loopIterations maxIterations host workflow triggerData st')
             | Break st' \<Rightarrow> 1
             | Throw msg st' \<Rightarrow> 1))"
  by pat_completeness auto
termination
  by (relation "measure (\<lambda>(maxIterations, host, workflow, triggerData, st).
                  loopMeasure maxIterations workflow st)")
     (auto intro: loopMeasure_decreases)

declare executeLoop.simps [simp del] loopIterations.simps [simp del]

subsection \<open>Running, resuming and cancelling an execution\<close>


record FromNodeResult =
  f_success :: bool
  f_status :: ExecutionStatus
  f_error :: "string option"
  f_stepResults :: "(string \<times> jsval) list"

text \<open>
  What \<open>executeFromNode\<close> does once the loop has ended: it marks the execution
  completed when the stack is empty and the status still \<open>running\<close>; in its \<open>catch\<close>
  it marks the execution and the current node failed and saves that.
\<close>

definition finishRun :: "LoopEnd \<Rightarrow> FromNodeResult \<times> ExecutionContext \<times> Store" where
  "finishRun ended =
     (case ended of
        Finished st \<Rightarrow>
          (let done = (status (g_context st) = Running \<and> g_stack st = []);
               context' = (if done then (g_context st)\<lparr> status := Completed \<rparr>
                           else g_context st);
               store' = (if done then saveExecution (g_store st) context' else g_store st)
           in (\<lparr> f_success = (status context' \<noteq> Failed), f_status = status context',
                  f_error = error context', f_stepResults = stepResults context' \<rparr>,
               context', store'))
      | Caught msg st \<Rightarrow>
          (let failedId = (case g_current st of
                             None \<Rightarrow> ''unknown''
                           | Some node \<Rightarrow> if n_id node = [] then ''unknown'' else n_id node);
               context' = (g_context st)
                 \<lparr> status := Failed, error := Some msg,
                   nodeStatuses := AList.update failedId NFailed (nodeStatuses (g_context st)) \<rparr>;
               store' = saveExecution (g_store st) context'
           in (\<lparr> f_success = False, f_status = Failed,
                  f_error = error context', f_stepResults = stepResults context' \<rparr>,
               context', store')))"

definition initialState :: "Store \<Rightarrow> ExecutionContext \<Rightarrow> WorkflowNode \<Rightarrow> EngineState" where
  "initialState store context startNode =
     \<lparr> g_store = store, g_context = context, g_stack = [startNode],
       g_visited = {}, g_current = None \<rparr>"

definition executeFromNode ::
  "int \<Rightarrow> Host \<Rightarrow> Workflow \<Rightarrow> ExecutionContext \<Rightarrow> WorkflowNode \<Rightarrow> (string \<times> jsval) list
     \<Rightarrow> Store \<Rightarrow> FromNodeResult \<times> ExecutionContext \<times> Store" where
  "executeFromNode maxIterations host workflow context startNode triggerData store =
     finishRun (executeLoop maxIterations host workflow triggerData
                  (initialState store context startNode))"

record ExecutionResult =
  x_success :: bool
  x_executionId :: string
  x_status :: ExecutionStatus
  x_error :: "string option"
  x_stepsExecuted :: nat

definition findStartNode :: "Workflow \<Rightarrow> WorkflowNode option" where
  "findStartNode workflow = find (\<lambda>node. n_type node = Trigger) (w_nodes workflow)"

definition newContext :: "string \<Rightarrow> string \<Rightarrow> (string \<times> jsval) list \<Rightarrow> ExecutionContext" where
  "newContext wid eid input =
     \<lparr> workflowId = wid, executionId = eid, status = Running, currentNodeId = None,
       stepResults = [], variables = spread [] input, error = None, nodeStatuses = [],
       nodeVisitCounts = [], parentExecutionId = None, childExecutionIds = [] \<rparr>"

text \<open>
  \<open>executeWorkflow\<close>.  Its \<open>catch\<close> is reached only by the missing trigger node; it
  marks the stored execution failed when the caller passed an execution id.  \<open>Inl\<close> is
  an exception that leaves the function.
\<close>

definition executeWorkflow ::
  "int \<Rightarrow> Host \<Rightarrow> Workflow \<Rightarrow> (string \<times> jsval) list \<Rightarrow> string option \<Rightarrow> Store
     \<Rightarrow> (string + ExecutionResult) \<times> Store" where
  "executeWorkflow maxIterations host workflow input eid store =
     (let executionIdFinal = (if present eid then (case eid of Some e \<Rightarrow> e | None \<Rightarrow> [])
                              else h_freshId host);
          context = newContext (w_id workflow) executionIdFinal input;
          store1 = saveExecution store context
      in case findStartNode workflow of
           None \<Rightarrow>
             (let failure = \<lparr> x_success = False, x_executionId = executionIdFinal,
                              x_status = Failed,
                              x_error = Some ''No trigger node found in workflow'',
                              x_stepsExecuted = 0 \<rparr>
              in if present eid then
                   (case updateExecutionStatus store1 executionIdFinal Failed
                           (\<lambda>execution. execution
                              \<lparr> error := Some ''No trigger node found in workflow'' \<rparr>) of
                      Inl msg \<Rightarrow> (Inl msg, store1)
                    | Inr store2 \<Rightarrow> (Inr failure, store2))
                 else (Inr failure, store1))
         | Some startNode \<Rightarrow>
             (let (result, context', store2) =
                    executeFromNode maxIterations host workflow context startNode input store1
              in (Inr \<lparr> x_success = f_success result, x_executionId = executionIdFinal,
                        x_status = f_status result, x_error = f_error result,
                        x_stepsExecuted = length (f_stepResults result) \<rparr>, store2)))"

text \<open>
  \<open>resumeExecution\<close> throws (\<open>Inl\<close>) when the execution or its workflow is not in the
  store, when the execution is not paused, and when the recorded current node is not a
  node of the workflow; the last happens after the running status has been saved.
\<close>

definition resumeExecution ::
  "int \<Rightarrow> Host \<Rightarrow> Store \<Rightarrow> string \<Rightarrow> (string \<times> jsval) list option
     \<Rightarrow> (string + ExecutionResult) \<times> Store" where
  "resumeExecution maxIterations host store eid approvalData =
     (case getExecution store eid of
        None \<Rightarrow> (Inl (''Execution '' @ eid @ '' not found''), store)
      | Some context \<Rightarrow>
          if status context \<noteq> Paused then (Inl (''Execution '' @ eid @ '' is not paused''), store)
          else
            (let context1 = (case approvalData of
                               None \<Rightarrow> context
                             | Some d \<Rightarrow> context\<lparr> variables := spread (variables context) d \<rparr>)
             in case getWorkflow store (workflowId context1) of
                  None \<Rightarrow> (Inl (''Workflow '' @ workflowId context1 @ '' not found''), store)
                | Some workflow \<Rightarrow>
                    (let context2 = context1\<lparr> status := Running \<rparr>;
                         store1 = saveExecution store context2
                     in case (case currentNodeId context2 of
                                None \<Rightarrow> None
                              | Some i \<Rightarrow> findNode workflow i) of
                          None \<Rightarrow>
                            (Inl (''Current node ''
                                  @ (case currentNodeId context2 of
                                       None \<Rightarrow> ''null'' | Some i \<Rightarrow> i)
                                  @ '' not found''), store1)
                        | Some currentNode \<Rightarrow>
                            (let (result, context', store2) =
                                   executeFromNode maxIterations host workflow context2
                                     currentNode [] store1
                             in (Inr \<lparr> x_success = f_success result, x_executionId = eid,
                                       x_status = f_status result, x_error = f_error result,
                                       x_stepsExecuted = length (f_stepResults result) \<rparr>,
                                 store2)))))"

definition cancelExecution :: "Store \<Rightarrow> string \<Rightarrow> bool \<times> Store" where
  "cancelExecution store eid =
     (case updateExecutionStatus store eid Cancelled (\<lambda>execution. execution) of
        Inl msg \<Rightarrow> (False, store)
      | Inr store' \<Rightarrow> (True, store'))"

subsection \<open>Validation\<close>

text \<open>
  The cycle detection of the loop executor: a depth-first search that keeps the set of
  visited nodes and the set of nodes on the recursion stack, and reports the slice of
  the path from the re-entered node on.  The recursion of \<open>dfs\<close> is given fuel, one
  unit per level of recursion; \<open>None\<close> means the fuel ran out.
\<close>

record DfsState =
  d_cycles :: "string list list"
  d_visited :: "string set"
  d_recursionStack :: "string set"

definition indexOf :: "string list \<Rightarrow> string \<Rightarrow> int" where
  "indexOf xs x = (if x \<in> set xs then int (length (takeWhile (\<lambda>y. y \<noteq> x) xs)) else - 1)"

definition slice :: "'a list \<Rightarrow> int \<Rightarrow> 'a list" where
  "slice xs start =
     (if start < 0 then drop (nat (int (length xs) + start)) xs else drop (nat start) xs)"

fun dfs :: "nat \<Rightarrow> WorkflowEdge list \<Rightarrow> string \<Rightarrow> string list \<Rightarrow> DfsState \<Rightarrow> DfsState option" where
  "dfs 0 edges nodeId path st = None"
| "dfs (Suc fuel) edges nodeId path st =
     (if nodeId \<in> d_recursionStack st then
        Some (st\<lparr> d_cycles := d_cycles st @ [slice path (indexOf path nodeId)] \<rparr>)
      else if nodeId \<in> d_visited st then Some st
      else
        (case fold (\<lambda>edge acc. case acc of
                                  None \<Rightarrow> None
                                | Some s \<Rightarrow> dfs fuel edges (e_target edge) (path @ [nodeId]) s)
                (filter (\<lambda>edge. e_source edge = nodeId) edges)
                (Some (st\<lparr> d_visited := insert nodeId (d_visited st),
                            d_recursionStack := insert nodeId (d_recursionStack st) \<rparr>)) of
           None \<Rightarrow> None
         | Some s \<Rightarrow> Some (s\<lparr> d_recursionStack := d_recursionStack s - {nodeId} \<rparr>)))"

definition detectCycles :: "nat \<Rightarrow> Workflow \<Rightarrow> string list list option" where
  "detectCycles fuel workflow =
     map_option d_cycles
       (fold (\<lambda>node acc. case acc of
                            None \<Rightarrow> None
                          | Some s \<Rightarrow>
                              if n_id node \<notin> d_visited s
                              then dfs fuel (w_edges workflow) (n_id node) [] s
                              else Some s)
          (w_nodes workflow)
          (Some \<lparr> d_cycles = [], d_visited = {}, d_recursionStack = {} \<rparr>))"

text \<open>
  \<open>validateWorkflow\<close>.  The node ids are visited in the order of a \<open>Set\<close>, first
  occurrences first.  The cycles found are only written to the console; they are kept
  here as \<open>v_warned\<close>.  The fuel given to the cycle detection, two more than the number
  of edges, is enough for it to return on every workflow.
\<close>

record ValidationResult =
  v_isValid :: bool
  v_errors :: "string list"
  v_warned :: "string list list"

definition connectedNodeIds :: "Workflow \<Rightarrow> string set" where
  "connectedNodeIds workflow = e_source ` set (w_edges workflow) \<union> e_target ` set (w_edges workflow)"

definition orphanErrors :: "Workflow \<Rightarrow> string list" where
  "orphanErrors workflow =
     map (\<lambda>nodeId. ''Node '' @ nodeId @ '' is not connected to the workflow'')
       (filter (\<lambda>nodeId. nodeId \<notin> connectedNodeIds workflow
                  \<and> map_option n_type (findNode workflow nodeId) \<noteq> Some Trigger)
          (rev (remdups (rev (map n_id (w_nodes workflow))))))"

definition validationErrors :: "Workflow \<Rightarrow> string list" where
  "validationErrors workflow =
     (if filter (\<lambda>node. n_type node = Trigger) (w_nodes workflow) = []
      then [''Workflow must have at least one trigger node''] else [])
     @ orphanErrors workflow"

definition validateWorkflow :: "Workflow \<Rightarrow> ValidationResult option" where
  "validateWorkflow workflow =
     (let errors = validationErrors workflow
      in case detectCycles (length (w_edges workflow) + 2) workflow of
           None \<Rightarrow> None
         | Some cycles \<Rightarrow>
             Some \<lparr> v_isValid = (errors = []), v_errors = errors, v_warned = cycles \<rparr>)"

section \<open>Retry handler (retry-handler.ts)\<close>

record RetryConfig =
  maxRetries :: int
  retryDelayMs :: rat
  backoffMultiplier :: rat
  retryableErrors :: "string list"

record PartialRetryConfig =
  p_maxRetries :: "int option"
  p_retryDelayMs :: "rat option"
  p_backoffMultiplier :: "rat option"
  p_retryableErrors :: "string list option"

text \<open>
  The constructor fills every missing or falsy number with its default; an array is
  truthy even when empty, so only a missing list of retryable errors is replaced.
\<close>

definition defaultRetryableErrors :: "string list" where
  "defaultRetryableErrors =
     [''timeout'', ''network'', ''rate_limit'', ''temporary'', ''unavailable'']"

definition newRetryHandler :: "PartialRetryConfig \<Rightarrow> RetryConfig" where
  "newRetryHandler config =
     \<lparr> maxRetries = orDefault (p_maxRetries config) 3,
       retryDelayMs = orDefault (p_retryDelayMs config) 1000,
       backoffMultiplier = orDefault (p_backoffMultiplier config) 2,
       retryableErrors =
         (case p_retryableErrors config of None \<Rightarrow> defaultRetryableErrors | Some l \<Rightarrow> l) \<rparr>"

text \<open>
  One call of the operation either resolves with a value or rejects.  What it rejects
  with is an \<open>Error\<close> carrying a message, or something that is not an \<open>Error\<close>, which
  the handler replaces by \<open>new Error('Unknown error')\<close>.  The operation is called once
  per attempt, so it is given as a function of the attempt number.
\<close>

datatype thrown = ErrorObj string | NotAnError

datatype 'a outcome = Resolves 'a | Rejects thrown

fun messageOf :: "thrown \<Rightarrow> string" where
  "messageOf (ErrorObj m) = m"
| "messageOf NotAnError = ''Unknown error''"

definition isRetryableError :: "RetryConfig \<Rightarrow> string \<Rightarrow> bool" where
  "isRetryableError cfg message =
     (let errorMessage = toLowerCase message
      in list_ex (\<lambda>retryableError. str_includes errorMessage (toLowerCase retryableError))
           (retryableErrors cfg))"

record 'a RetryResult =
  r_success :: bool
  r_result :: "'a option"
  r_error :: "string option"
  r_attempts :: int
  r_totalDelayMs :: rat

text \<open>
  The \<open>for\<close> loop of \<open>executeWithRetry\<close>, from attempt number \<open>attempt\<close> on.  The
  loop state is the last error, the accumulated delay and (a ghost of the calls of
  \<open>this.delay\<close>) the list of sleeps performed so far, oldest first.  The function
  returns the \<open>RetryResult\<close> together with all sleeps performed.  The final
  \<open>lastError?.message || 'Max retries exceeded'\<close> replaces a missing or empty message.
\<close>

definition backoffDelay :: "RetryConfig \<Rightarrow> int \<Rightarrow> rat" where
  "backoffDelay cfg attempt = retryDelayMs cfg * backoffMultiplier cfg ^ nat (attempt - 1)"

definition exhausted :: "RetryConfig \<Rightarrow> string option \<Rightarrow> rat \<Rightarrow> 'a RetryResult" where
  "exhausted cfg lastError totalDelayMs =
     \<lparr> r_success = False, r_result = None,
       r_error = Some (case lastError of
                         None \<Rightarrow> ''Max retries exceeded''
                       | Some m \<Rightarrow> if m = [] then ''Max retries exceeded'' else m),
       r_attempts = maxRetries cfg, r_totalDelayMs = totalDelayMs \<rparr>"

function retryLoop ::
  "RetryConfig \<Rightarrow> (int \<Rightarrow> 'a outcome) \<Rightarrow> int \<Rightarrow> string option \<Rightarrow> rat \<Rightarrow> rat list
     \<Rightarrow> 'a RetryResult \<times> rat list" where
  "retryLoop cfg operation attempt lastError totalDelayMs sleeps =
     (if attempt \<le> maxRetries cfg then
        (case operation attempt of
           Resolves v \<Rightarrow>
             (\<lparr> r_success = True, r_result = Some v, r_error = None,
                 r_attempts = attempt, r_totalDelayMs = totalDelayMs \<rparr>, sleeps)
         | Rejects e \<Rightarrow>
             (if \<not> isRetryableError cfg (messageOf e) then
                (\<lparr> r_success = False, r_result = None, r_error = Some (messageOf e),
                    r_attempts = attempt, r_totalDelayMs = totalDelayMs \<rparr>, sleeps)
              else if attempt = maxRetries cfg then
                (exhausted cfg (Some (messageOf e)) totalDelayMs, sleeps)
              else
                retryLoop cfg operation (attempt + 1) (Some (messageOf e))
                  (totalDelayMs + backoffDelay cfg attempt)
                  (sleeps @ [backoffDelay cfg attempt])))
      else (exhausted cfg lastError totalDelayMs, sleeps))"
  by pat_completeness auto
termination
  by (relation "measure (\<lambda>(cfg, operation, attempt, lastError, totalDelayMs, sleeps).
        nat (maxRetries cfg + 1 - attempt))") auto

declare retryLoop.simps [simp del]

definition executeWithRetry ::
  "RetryConfig \<Rightarrow> (int \<Rightarrow> 'a outcome) \<Rightarrow> 'a RetryResult \<times> rat list" where
  "executeWithRetry cfg operation = retryLoop cfg operation 1 None 0 []"

text \<open>
  An attempt fails retryably when the operation rejects and the message of what it
  rejected with is classified retryable.
\<close>

definition retryableFailure :: "RetryConfig \<Rightarrow> 'a outcome \<Rightarrow> bool" where
  "retryableFailure cfg out =
     (case out of Resolves v \<Rightarrow> False | Rejects e \<Rightarrow> isRetryableError cfg (messageOf e))"

text \<open>
  The sleeps the specification prescribes before attempt \<open>k\<close>: one after each earlier
  attempt, \<open>baseDelay * backoffFactor^(attempt-1)\<close>, in order.
\<close>

definition spec_sleeps :: "rat \<Rightarrow> rat \<Rightarrow> int \<Rightarrow> rat list" where
  "spec_sleeps baseDelay backoffFactor k =
     map (\<lambda>attempt. baseDelay * backoffFactor ^ nat (attempt - 1)) [1..k - 1]"

section \<open>Inputs for the instances below\<close>

text \<open>A node and an edge with the fields that matter spelled out.\<close>

definition mkNode :: "string \<Rightarrow> NodeType \<Rightarrow> NodeConfig \<Rightarrow> WorkflowNode" where
  "mkNode i t config = \<lparr> n_id = i, n_type = t, n_label = i, n_config = config \<rparr>"

definition mkEdge :: "string \<Rightarrow> string \<Rightarrow> string option \<Rightarrow> WorkflowEdge" where
  "mkEdge src tgt guard =
     \<lparr> e_id = src @ ''->'' @ tgt, e_source = src, e_target = tgt, e_condition = guard \<rparr>"


text \<open>
  \<open>JSON.parse\<close> restricted to the serialisations of the listed values, and a host for
  the instances: its evaluator throws on every expression.
\<close>

definition tableParse :: "jsval list \<Rightarrow> string \<Rightarrow> string + jsval" where
  "tableParse table s =
     (case find (\<lambda>v. JSON_stringify v = s) table of
        None \<Rightarrow> Inl ''Unexpected token''
      | Some v \<Rightarrow> Inr v)"

definition exampleHost :: Host where
  "exampleHost =
     \<lparr> h_eval = (\<lambda>expression ctx. Inl ''Unexpected token''),
       h_parse = tableParse [JObj [(''ok'', JBool True)], JObj [(''ok'', JBool False)]],
       h_now = 1000,
       h_iso = numberToString,
       h_freshId = ''exec_1'',
       h_dispatch = (\<lambda>node context.
          \<lparr> nr_success = True, nr_data = JObj [(''done'', JStr (n_id node))],
            nr_error = None \<rparr>) \<rparr>"


text \<open>An empty store, and a workflow whose two action nodes form a cycle.\<close>

definition emptyStore :: Store where
  "emptyStore = \<lparr> s_workflows = Map.empty, s_executions = Map.empty, s_approvals = Map.empty \<rparr>"


text \<open>
  A workflow with a loop node of at most 3 iterations, a body that leads back to it and
  an exit; and the state of the engine when the loop node has been visited \<open>n\<close> times.
\<close>

definition loopNode :: WorkflowNode where
  "loopNode = mkNode ''loop'' Loop (emptyConfig\<lparr> c_maxIterations := Some 3 \<rparr>)"

definition loopWorkflow :: Workflow where
  "loopWorkflow =
     \<lparr> w_id = ''looping'',
       w_nodes = [mkNode ''start'' Trigger (emptyConfig\<lparr> c_triggerType := Some ''manual'' \<rparr>),
                  loopNode, mkNode ''body'' Action emptyConfig,
                  mkNode ''done'' Action emptyConfig],
       w_edges = [mkEdge ''start'' ''loop'' None,
                  mkEdge ''loop'' ''body'' (Some ''continue''),
                  mkEdge ''body'' ''loop'' None,
                  mkEdge ''loop'' ''done'' (Some ''exit'')] \<rparr>"

definition atVisit :: "nat \<Rightarrow> WorkflowNode list \<Rightarrow> string set \<Rightarrow> EngineState" where
  "atVisit n stack visited =
     \<lparr> g_store = emptyStore,
       g_context = (newContext ''looping'' ''e1'' [])\<lparr> nodeVisitCounts := [(''loop'', n)] \<rparr>,
       g_stack = stack, g_visited = visited, g_current = None \<rparr>"







text \<open>
  An approval request has not expired when it has no time-out or its time-out is not
  before the clock of the host.  The error that \<open>reject\<close> records is the fixed prefix
  followed by the reason given, or by \<open>No reason provided\<close>.
\<close>

definition notExpired :: "Host \<Rightarrow> ApprovalRequest \<Rightarrow> bool" where
  "notExpired host approval =
     (case a_timeoutAt approval of None \<Rightarrow> True | Some t \<Rightarrow> h_now host \<le> t)"

definition rejectionReason :: "string option \<Rightarrow> string" where
  "rejectionReason reason =
     ''Approval rejected: ''
     @ (case reason of None \<Rightarrow> ''No reason provided''
        | Some r \<Rightarrow> if r = [] then ''No reason provided'' else r)"

text \<open>
  A workflow with an approval gate, the engine state in which the gate is reached, and
  a store in which the execution waits at the gate.
\<close>

definition approvalNode :: WorkflowNode where
  "approvalNode = mkNode ''review'' HumanApproval
     (emptyConfig\<lparr> c_approvalMessage := Some ''Please review'',
                   c_timeoutMinutes := Some 60 \<rparr>)"

definition approvalWorkflow :: Workflow where
  "approvalWorkflow =
     \<lparr> w_id = ''approvals'',
       w_nodes = [mkNode ''start'' Trigger (emptyConfig\<lparr> c_triggerType := Some ''manual'' \<rparr>),
                  approvalNode, mkNode ''ship'' Action emptyConfig],
       w_edges = [mkEdge ''start'' ''review'' None, mkEdge ''review'' ''ship'' None] \<rparr>"

definition pausedStore :: Store where
  "pausedStore =
     \<lparr> s_workflows = [''approvals'' \<mapsto> approvalWorkflow],
       s_executions =
         [''e1'' \<mapsto> (newContext ''approvals'' ''e1'' [])
                      \<lparr> status := Paused, currentNodeId := Some ''review'',
                        nodeVisitCounts := [(''start'', 1), (''review'', 1)] \<rparr>],
       s_approvals =
         [''e1'' \<mapsto> \<lparr> a_executionId = ''e1'', a_nodeId = ''review'',
                       a_message = ''Please review'', a_data = JObj [],
                       a_timeoutAt = Some 3601000 \<rparr>] \<rparr>"

definition atApproval :: EngineState where
  "atApproval =
     \<lparr> g_store = emptyStore, g_context = newContext ''approvals'' ''e1'' [],
       g_stack = [], g_visited = {''start''}, g_current = None \<rparr>"



text \<open>An evaluator that returns the expression it is given.\<close>

definition probe :: evaluator where
  "probe expression ctx = Inr (Data (JStr expression))"

section \<open>Steps of the traversal loop\<close>









section \<open>Properties of the retry handler\<close>

lemma retryLoop_skip:
  assumes "a \<le> k" "k \<le> maxRetries cfg"
    and "\<forall>i. a \<le> i \<and> i < k \<longrightarrow> retryableFailure cfg (operation i)"
  shows "\<exists>le'. retryLoop cfg operation a le tot sl =
           retryLoop cfg operation k le'
             (tot + sum_list (map (backoffDelay cfg) [a..k - 1]))
             (sl @ map (backoffDelay cfg) [a..k - 1])"
  using assms
proof (induction "nat (k - a)" arbitrary: a le tot sl)
  case 0
  then have "a = k" by simp
  then show ?case by auto
next
  case (Suc n)
  then have lt: "a < k" by simp
  with Suc.prems have "retryableFailure cfg (operation a)" by simp
  then obtain e where e: "operation a = Rejects e" "isRetryableError cfg (messageOf e)"
    by (cases "operation a") (auto simp: retryableFailure_def)
  have step: "retryLoop cfg operation a le tot sl =
      retryLoop cfg operation (a + 1) (Some (messageOf e)) (tot + backoffDelay cfg a) (sl @ [backoffDelay cfg a])"
    using Suc.prems e lt by (subst retryLoop.simps) simp
  have n: "n = nat (k - (a + 1))" using Suc.hyps(2) by simp
  have le: "a + 1 \<le> k" using lt by simp
  from Suc.hyps(1)[OF n le Suc.prems(2)] Suc.prems(3)
  obtain m where m: "retryLoop cfg operation (a + 1) (Some (messageOf e)) (tot + backoffDelay cfg a) (sl @ [backoffDelay cfg a])
      = retryLoop cfg operation k m
           (tot + backoffDelay cfg a + sum_list (map (backoffDelay cfg) [a + 1..k - 1]))
           ((sl @ [backoffDelay cfg a]) @ map (backoffDelay cfg) [a + 1..k - 1])"
    by force
  have up: "[a..k - 1] = a # [a + 1..k - 1]" using lt by (simp add: upto_rec1)
  show ?case using step m up by (auto simp: add.assoc)
qed

lemma spec_sleeps_backoff:
  "map (backoffDelay cfg) [1..k - 1] = spec_sleeps (retryDelayMs cfg) (backoffMultiplier cfg) k"
  by (simp add: spec_sleeps_def backoffDelay_def)

text \<open>
  Claim C5.  \<open>executeWithRetry\<close> retries until success or exhaustion.  If the first
  \<open>k - 1\<close> attempts fail retryably (\<open>k\<close> within the attempt limit), the operation
  is called a \<open>k\<close>-th time after exactly the sleeps
  \<open>baseDelay * backoffFactor^(attempt-1)\<close> for \<open>attempt = 1 .. k-1\<close>, and then:
  a success is returned with \<open>attempts = k\<close>; a non-retryable failure is returned at
  once with \<open>attempts = k\<close> and no further sleep; and a retryable failure on the last
  attempt ends the run as a failure with no sleep after it.
\<close>

theorem executeWithRetry_until_success_or_exhaustion:
  assumes "1 \<le> k" and "k \<le> maxRetries cfg"
    and "\<forall>i. 1 \<le> i \<and> i < k \<longrightarrow> retryableFailure cfg (operation i)"
  shows "(\<forall>v. operation k = Resolves v \<longrightarrow>
            executeWithRetry cfg operation =
              (\<lparr> r_success = True, r_result = Some v, r_error = None, r_attempts = k,
                  r_totalDelayMs =
                    sum_list (spec_sleeps (retryDelayMs cfg) (backoffMultiplier cfg) k) \<rparr>,
               spec_sleeps (retryDelayMs cfg) (backoffMultiplier cfg) k))
       \<and> (\<forall>e. operation k = Rejects e \<and> \<not> isRetryableError cfg (messageOf e) \<longrightarrow>
            executeWithRetry cfg operation =
              (\<lparr> r_success = False, r_result = None, r_error = Some (messageOf e),
                  r_attempts = k,
                  r_totalDelayMs =
                    sum_list (spec_sleeps (retryDelayMs cfg) (backoffMultiplier cfg) k) \<rparr>,
               spec_sleeps (retryDelayMs cfg) (backoffMultiplier cfg) k))
       \<and> (\<forall>e. operation k = Rejects e \<and> isRetryableError cfg (messageOf e)
               \<and> k = maxRetries cfg \<longrightarrow>
            r_success (fst (executeWithRetry cfg operation)) = False
            \<and> r_attempts (fst (executeWithRetry cfg operation)) = maxRetries cfg
            \<and> snd (executeWithRetry cfg operation) =
                spec_sleeps (retryDelayMs cfg) (backoffMultiplier cfg) (maxRetries cfg))"
proof -
  from retryLoop_skip[OF assms(1) assms(2) assms(3), of None 0 "[]"]
  obtain le' where run: "executeWithRetry cfg operation =
      retryLoop cfg operation k le'
        (sum_list (spec_sleeps (retryDelayMs cfg) (backoffMultiplier cfg) k))
        (spec_sleeps (retryDelayMs cfg) (backoffMultiplier cfg) k)"
    by (auto simp: executeWithRetry_def spec_sleeps_backoff)
  have unf: "retryLoop cfg operation k le' T S =
      (case operation k of
         Resolves v \<Rightarrow>
           (\<lparr> r_success = True, r_result = Some v, r_error = None,
               r_attempts = k, r_totalDelayMs = T \<rparr>, S)
       | Rejects e \<Rightarrow>
           (if \<not> isRetryableError cfg (messageOf e) then
              (\<lparr> r_success = False, r_result = None, r_error = Some (messageOf e),
                  r_attempts = k, r_totalDelayMs = T \<rparr>, S)
            else if k = maxRetries cfg then (exhausted cfg (Some (messageOf e)) T, S)
            else retryLoop cfg operation (k + 1) (Some (messageOf e))
                   (T + backoffDelay cfg k) (S @ [backoffDelay cfg k])))" for T S
    using assms(2) by (subst retryLoop.simps) simp
  show ?thesis
    unfolding run unf by (auto simp: exhausted_def)
qed

text \<open>
  The instance of the specification: two failures with a timeout message, success on
  attempt 3, under \<open>maxRetries = 3\<close> and the default delays.
\<close>

theorem executeWithRetry_timeout_twice_witness:
  "executeWithRetry
     (newRetryHandler \<lparr> p_maxRetries = Some 3, p_retryDelayMs = None,
                        p_backoffMultiplier = None, p_retryableErrors = None \<rparr>)
     (\<lambda>attempt. if attempt < 3 then Rejects (ErrorObj ''Request Timeout'') else Resolves ''done'')
   = (\<lparr> r_success = True, r_result = Some ''done'', r_error = None, r_attempts = 3,
         r_totalDelayMs = 3000 \<rparr>, [1000, 2000])"
  using executeWithRetry_until_success_or_exhaustion
    [of 3 "newRetryHandler \<lparr> p_maxRetries = Some 3, p_retryDelayMs = None,
                        p_backoffMultiplier = None, p_retryableErrors = None \<rparr>"
        "\<lambda>attempt. if attempt < 3 then Rejects (ErrorObj ''Request Timeout'') else Resolves ''done''"]
  by (simp add: newRetryHandler_def orDefault_def retryableFailure_def isRetryableError_def
        defaultRetryableErrors_def toLowerCase_def toLowerChar_def spec_sleeps_def upto.simps
        str_includes_def)

section \<open>Properties of the validator\<close>

lemma dfs_fold_returns:
  assumes ih: "\<And>nodeId path st. card (insert nodeId U - d_visited st) < n
                 \<Longrightarrow> \<exists>st'. dfs n edges nodeId path st = Some st' \<and> d_visited st \<subseteq> d_visited st'"
    and fin: "finite U"
    and tg: "\<forall>e\<in>set es. e_target e \<in> U"
    and small: "card (U - d_visited s) < n"
  shows "\<exists>s'. fold (\<lambda>edge acc. case acc of None \<Rightarrow> None
                                 | Some s \<Rightarrow> dfs n edges (e_target edge) p s) es (Some s) = Some s'
              \<and> d_visited s \<subseteq> d_visited s'"
  using tg small
proof (induction es arbitrary: s)
  case Nil
  then show ?case by simp
next
  case (Cons e es)
  from Cons.prems have "insert (e_target e) U = U" by auto
  with Cons.prems have "card (insert (e_target e) U - d_visited s) < n" by simp
  from ih[OF this] obtain s1 where s1: "dfs n edges (e_target e) p s = Some s1"
    "d_visited s \<subseteq> d_visited s1" by blast
  have "U - d_visited s1 \<subseteq> U - d_visited s" using s1(2) by auto
  then have "card (U - d_visited s1) \<le> card (U - d_visited s)"
    using fin by (intro card_mono) auto
  with Cons.prems have small1: "card (U - d_visited s1) < n" by simp
  from Cons.prems have "\<forall>e\<in>set es. e_target e \<in> U" by simp
  from Cons.IH[OF this small1] obtain s' where
    "fold (\<lambda>edge acc. case acc of None \<Rightarrow> None
                                 | Some s \<Rightarrow> dfs n edges (e_target edge) p s) es (Some s1) = Some s'"
    "d_visited s1 \<subseteq> d_visited s'" by blast
  with s1 show ?case by auto
qed

lemma dfs_returns:
  "card (insert nodeId (e_target ` set edges) - d_visited st) < fuel
     \<Longrightarrow> \<exists>st'. dfs fuel edges nodeId path st = Some st' \<and> d_visited st \<subseteq> d_visited st'"
proof (induction fuel arbitrary: nodeId path st)
  case 0
  then show ?case by simp
next
  case (Suc n)
  let ?U = "e_target ` set edges"
  show ?case
  proof (cases "nodeId \<in> d_recursionStack st \<or> nodeId \<in> d_visited st")
    case True
    then show ?thesis by auto
  next
    case False
    let ?st1 = "st\<lparr> d_visited := insert nodeId (d_visited st),
                     d_recursionStack := insert nodeId (d_recursionStack st) \<rparr>"
    have eq: "insert nodeId ?U - d_visited st = insert nodeId (?U - d_visited ?st1)"
      using False by auto
    have "card (insert nodeId (?U - d_visited ?st1)) = Suc (card (?U - d_visited ?st1))"
      by (rule card_insert_disjoint) auto
    with Suc.prems eq have small: "card (?U - d_visited ?st1) < n" by simp
    have tg: "\<forall>e\<in>set (filter (\<lambda>edge. e_source edge = nodeId) edges). e_target e \<in> ?U"
      by auto
    from dfs_fold_returns[where U = ?U and n = n and edges = edges, OF Suc.IH _ tg small,
        of "path @ [nodeId]"]
    obtain s' where s': "fold (\<lambda>edge acc. case acc of None \<Rightarrow> None
                  | Some s \<Rightarrow> dfs n edges (e_target edge) (path @ [nodeId]) s)
             (filter (\<lambda>edge. e_source edge = nodeId) edges) (Some ?st1) = Some s'"
      "d_visited ?st1 \<subseteq> d_visited s'"
      by auto
    with False show ?thesis by auto
  qed
qed

lemma detectCycles_fold_returns:
  assumes "\<And>nodeId st. \<exists>st'. dfs fuel edges nodeId [] st = Some st'"
  shows "\<exists>s'. fold (\<lambda>node acc. case acc of None \<Rightarrow> None
                          | Some s \<Rightarrow> if n_id node \<notin> d_visited s
                                      then dfs fuel edges (n_id node) [] s else Some s)
                 ns (Some s) = Some s'"
proof (induction ns arbitrary: s)
  case Nil
  then show ?case by simp
next
  case (Cons a ns)
  show ?case
  proof (cases "n_id a \<notin> d_visited s")
    case True
    from assms obtain s1 where "dfs fuel edges (n_id a) [] s = Some s1" by blast
    with True Cons.IH[of s1] show ?thesis by simp
  next
    case False
    with Cons.IH[of s] show ?thesis by simp
  qed
qed

lemma detectCycles_returns:
  "\<exists>cycles. detectCycles (length (w_edges workflow) + 2) workflow = Some cycles"
proof -
  let ?edges = "w_edges workflow"
  have "\<exists>st'. dfs (length ?edges + 2) ?edges nodeId [] st = Some st'" for nodeId st
  proof -
    have "card (insert nodeId (e_target ` set ?edges) - d_visited st)
            \<le> card (insert nodeId (e_target ` set ?edges))"
      by (intro card_mono) auto
    also have "\<dots> \<le> Suc (card (e_target ` set ?edges))"
      by (simp add: card_insert_if)
    also have "\<dots> \<le> Suc (length ?edges)"
      using card_image_le[of "set ?edges" e_target] card_length[of ?edges] by simp
    finally have "card (insert nodeId (e_target ` set ?edges) - d_visited st)
                    < length ?edges + 2" by simp
    from dfs_returns[OF this] show ?thesis by blast
  qed
  from detectCycles_fold_returns[of "length ?edges + 2" ?edges, OF this]
  show ?thesis unfolding detectCycles_def by (metis option.simps(9))
qed


lemma find_distinct:
  "distinct (map n_id ns) \<Longrightarrow> n \<in> set ns \<Longrightarrow> find (\<lambda>m. n_id m = n_id n) ns = Some n"
  by (induction ns) (auto simp: rev_image_eqI)

lemma orphanErrors_empty_iff:
  assumes "distinct (map n_id (w_nodes workflow))"
  shows "orphanErrors workflow = []
           \<longleftrightarrow> (\<forall>n\<in>set (w_nodes workflow).
                  n_type n \<noteq> Trigger \<longrightarrow> n_id n \<in> connectedNodeIds workflow)"
  using assms
  by (auto simp: orphanErrors_def filter_empty_conv findNode_def find_distinct)

lemma no_trigger_iff:
  "filter (\<lambda>node. n_type node = Trigger) ns = [] \<longleftrightarrow> \<not> (\<exists>n\<in>set ns. n_type n = Trigger)"
  by (auto simp: filter_empty_conv)

text \<open>
  Claim C3, as the code has it.  For a workflow with unique node ids the validator
  always returns, and it returns \<open>valid\<close> exactly when there is a trigger node and
  every other node is the source or the target of some edge; so a workflow without a
  trigger node is invalid, a node that no edge touches makes it invalid, and a workflow
  with a trigger node all of whose other nodes are the target of an edge is valid.  The
  cycles found never enter the verdict.
\<close>

theorem validateWorkflow_valid_iff:
  assumes "distinct (map n_id (w_nodes workflow))"
  shows "\<exists>r. validateWorkflow workflow = Some r
           \<and> (v_isValid r \<longleftrightarrow> v_errors r = [])
           \<and> (v_isValid r \<longleftrightarrow>
                (\<exists>n\<in>set (w_nodes workflow). n_type n = Trigger)
                \<and> (\<forall>n\<in>set (w_nodes workflow). n_type n \<noteq> Trigger \<longrightarrow>
                      n_id n \<in> e_source ` set (w_edges workflow)
                              \<union> e_target ` set (w_edges workflow)))
           \<and> ((\<exists>n\<in>set (w_nodes workflow). n_type n = Trigger)
                \<and> (\<forall>n\<in>set (w_nodes workflow). n_type n \<noteq> Trigger \<longrightarrow>
                      n_id n \<in> e_target ` set (w_edges workflow))
                \<longrightarrow> v_isValid r)"
proof -
  from detectCycles_returns obtain cycles where
    c: "detectCycles (length (w_edges workflow) + 2) workflow = Some cycles" by blast
  let ?r = "\<lparr> v_isValid = (validationErrors workflow = []),
              v_errors = validationErrors workflow, v_warned = cycles \<rparr>"
  have r: "validateWorkflow workflow = Some ?r"
    unfolding validateWorkflow_def Let_def c by simp
  have iff: "validationErrors workflow = [] \<longleftrightarrow>
      (\<exists>n\<in>set (w_nodes workflow). n_type n = Trigger)
      \<and> (\<forall>n\<in>set (w_nodes workflow). n_type n \<noteq> Trigger \<longrightarrow>
            n_id n \<in> e_source ` set (w_edges workflow) \<union> e_target ` set (w_edges workflow))"
    unfolding validationErrors_def
    using orphanErrors_empty_iff[OF assms] no_trigger_iff[of "w_nodes workflow"]
    by (auto simp: connectedNodeIds_def)
  show ?thesis
    using r iff by auto
qed

text \<open>A valid workflow with a cycle between its two action nodes: the cycle is only reported.\<close>

theorem validateWorkflow_valid_witness:
  "validateWorkflow
     \<lparr> w_id = ''w'',
       w_nodes = [mkNode ''start'' Trigger emptyConfig, mkNode ''a'' Action emptyConfig,
                  mkNode ''b'' Agent emptyConfig],
       w_edges = [mkEdge ''start'' ''a'' None, mkEdge ''a'' ''b'' None,
                  mkEdge ''b'' ''a'' None] \<rparr>
   = Some \<lparr> v_isValid = True, v_errors = [], v_warned = [[''a'', ''b'']] \<rparr>"
  using validateWorkflow_valid_iff
    [of "\<lparr> w_id = ''w'',
       w_nodes = [mkNode ''start'' Trigger emptyConfig, mkNode ''a'' Action emptyConfig,
                  mkNode ''b'' Agent emptyConfig],
       w_edges = [mkEdge ''start'' ''a'' None, mkEdge ''a'' ''b'' None,
                  mkEdge ''b'' ''a'' None] \<rparr>"]
  by (simp add: mkNode_def mkEdge_def validateWorkflow_def validationErrors_def
        orphanErrors_def connectedNodeIds_def findNode_def detectCycles_def
        eval_nat_numeral indexOf_def slice_def)

text \<open>
  Claim C3 as stated fails: node \<open>a\<close> is not a trigger and is the target of no edge,
  yet the workflow is valid, because \<open>a\<close> is the source of an edge.
\<close>

theorem validateWorkflow_unreachable_counterexample:
  "n_type (mkNode ''a'' Action emptyConfig) \<noteq> Trigger
   \<and> n_id (mkNode ''a'' Action emptyConfig)
       \<notin> e_target ` set [mkEdge ''start'' ''b'' None, mkEdge ''a'' ''b'' None]
   \<and> validateWorkflow
       \<lparr> w_id = ''w'',
         w_nodes = [mkNode ''start'' Trigger emptyConfig, mkNode ''a'' Action emptyConfig,
                    mkNode ''b'' Action emptyConfig],
         w_edges = [mkEdge ''start'' ''b'' None, mkEdge ''a'' ''b'' None] \<rparr>
     = Some \<lparr> v_isValid = True, v_errors = [], v_warned = [] \<rparr>"
  by (simp add: mkNode_def mkEdge_def validateWorkflow_def validationErrors_def
        orphanErrors_def connectedNodeIds_def findNode_def detectCycles_def
        eval_nat_numeral indexOf_def slice_def)

section \<open>Properties of the aggregation\<close>









section \<open>Properties of the traversal loop\<close>










section \<open>Properties of loop nodes\<close>












text \<open>
  When the loop ends, the engine puts the targets of all outgoing edges on the stack,
  the body's among them; the selection of exit edges in the loop executor is not used.
\<close>

lemma loop_exit_follows_every_edge:
  "(case loopBody 1000 exampleHost loopWorkflow [] loopNode (atVisit 2 [] {''loop''}) of
      Continue st' \<Rightarrow>
        g_stack st' = [mkNode ''body'' Action emptyConfig, mkNode ''done'' Action emptyConfig]
    | Break st' \<Rightarrow> False
    | Throw msg st' \<Rightarrow> False)
   \<and> LoopExecutor_getNextNodes loopNode loopWorkflow False
       = [mkNode ''done'' Action emptyConfig]"
  by (simp add: loopBody_def executeNode_def
        afterNode_def enterNode_def LoopExecutor_execute_def LoopExecutor_validateConfig_def
        loopNode_def mkNode_def mkEdge_def emptyConfig_def present_def atVisit_def
        newContext_def loopWorkflow_def getNextNodes_def targetsOf_def outgoingEdges_def
        findNode_def List.map_filter_def LoopExecutor_getNextNodes_def
        visitCount_def truthyOpt_def Let_def)

section \<open>Properties of condition nodes\<close>







section \<open>Properties of approval gates\<close>

lemma approval_config_message:
  "ApprovalExecutor_validateConfig config = [] \<Longrightarrow> \<exists>m. c_approvalMessage config = Some m"
  by (auto simp: ApprovalExecutor_validateConfig_def present_def split: option.splits if_splits)

lemma newApprovalRequest_id [simp]:
  "a_executionId (newApprovalRequest now node context m) = executionId context"
  by (simp add: newApprovalRequest_def)

lemma ApprovalExecutor_pauses:
  assumes "ApprovalExecutor_validateConfig (n_config node) = []"
    and "c_approvalMessage (n_config node) = Some m"
    and "getExecution store (executionId context) = Some e"
    and "executionId e = executionId context"
  shows "ar_success (fst (ApprovalExecutor_execute host node context store))"
    and "s_approvals (snd (ApprovalExecutor_execute host node context store))
           = (s_approvals store)(executionId context \<mapsto>
                newApprovalRequest (h_now host) node context m)"
    and "map_option status
           (getExecution (snd (ApprovalExecutor_execute host node context store))
              (executionId context)) = Some Paused"
  using assms
  by (auto simp: ApprovalExecutor_execute_def Let_def updateExecutionStatus_def
        saveApprovalRequest_def getExecution_def saveExecution_def)

lemma enterNode_executionId [simp]: "executionId (enterNode context i) = executionId context"
  by (simp add: enterNode_def)

lemma loopBody_approval:
  assumes "n_type node = HumanApproval"
    and "ApprovalExecutor_validateConfig (n_config node) = []"
    and "c_approvalMessage (n_config node) = Some m"
    and "\<not> (n_id node \<in> g_visited st
            \<and> maxIterations \<le> int (visitCount (g_context st) (n_id node)))"
  shows "\<exists>st'. loopBody maxIterations host workflow triggerData node st = Break st'
           \<and> status (g_context st') = Paused
           \<and> map_option status (getExecution (g_store st') (executionId (g_context st)))
               = Some Paused
           \<and> s_approvals (g_store st')
               = (s_approvals (g_store st))(executionId (g_context st) \<mapsto>
                    newApprovalRequest (h_now host) node
                      (enterNode (g_context st) (n_id node)) m)"
proof -
  let ?c1 = "enterNode (g_context st) (n_id node)"
  let ?s1 = "saveExecution (g_store st) ?c1"
  let ?ex = "ApprovalExecutor_execute host node ?c1 ?s1"
  have got: "getExecution ?s1 (executionId ?c1) = Some ?c1"
    by (simp add: getExecution_def saveExecution_def)
  note p = ApprovalExecutor_pauses[OF assms(2) assms(3) got refl, of host]
  let ?c3 = "?c1\<lparr> stepResults := AList.update (n_id node) (ar_data (fst ?ex)) (stepResults ?c1),
                   nodeStatuses := AList.update (n_id node) NCompleted (nodeStatuses ?c1) \<rparr>"
  have body: "loopBody maxIterations host workflow triggerData node st
      = Break (st\<lparr> g_visited := insert (n_id node) (g_visited st),
                   g_store := snd ?ex,
                   g_context := ?c3\<lparr> status := Paused \<rparr> \<rparr>)"
    using assms(1,4) p(1)
    by (simp add: loopBody_def executeNode_def afterNode_def Let_def split_beta)
  have ap: "s_approvals (snd ?ex)
              = (s_approvals (g_store st))(executionId (g_context st) \<mapsto>
                    newApprovalRequest (h_now host) node ?c1 m)"
    using p(2) by (simp add: saveExecution_def)
  have ps: "map_option status (getExecution (snd ?ex) (executionId (g_context st))) = Some Paused"
    using p(3) by simp
  show ?thesis
    unfolding body using ap ps by simp
qed

lemma approve_ok:
  assumes "getApprovalRequest store eid = Some approval" and "notExpired host approval"
    and "getExecution store eid = Some e" and "executionId e = eid"
  shows "\<exists>store'. approve host store eid approvedBy reason additionalData = (None, store')
           \<and> map_option status (getExecution store' eid) = Some Running
           \<and> s_approvals store' = (s_approvals store)(eid := None)"
  using assms
  by (auto simp: approve_def notExpired_def updateExecutionStatus_def getExecution_def
        saveExecution_def deleteApprovalRequest_def getApprovalRequest_def
        split: option.splits)

lemma reject_ok:
  assumes "getApprovalRequest store eid = Some approval"
    and "getExecution store eid = Some e" and "executionId e = eid"
  shows "\<exists>store'. reject host store eid rejectedBy reason = (None, store')
           \<and> map_option status (getExecution store' eid) = Some Failed
           \<and> map_option error (getExecution store' eid) = Some (Some (rejectionReason reason))
           \<and> s_approvals store' = (s_approvals store)(eid := None)"
  using assms
  by (auto simp: reject_def rejectionReason_def present_def updateExecutionStatus_def
        getExecution_def saveExecution_def deleteApprovalRequest_def getApprovalRequest_def
        split: option.splits)

text \<open>
  Claim C6.  When the loop runs its body on a human-approval node with a valid
  configuration, it breaks with the status \<open>paused\<close>, in the context and in the store,
  and the store has gained exactly the approval request of this execution.  \<open>approve\<close>
  on a pending request that has not expired sets the stored status to \<open>running\<close> and
  deletes the request; \<open>reject\<close> on a pending request sets the stored status to
  \<open>failed\<close>, records the rejection reason as the error of the execution and deletes the
  request.
\<close>

theorem approval_lifecycle:
  "(n_type node = HumanApproval \<and> ApprovalExecutor_validateConfig (n_config node) = []
    \<and> \<not> (n_id node \<in> g_visited st
           \<and> maxIterations \<le> int (visitCount (g_context st) (n_id node)))
    \<longrightarrow> (\<exists>st' m. loopBody maxIterations host workflow triggerData node st = Break st'
            \<and> c_approvalMessage (n_config node) = Some m
            \<and> status (g_context st') = Paused
            \<and> map_option status (getExecution (g_store st') (executionId (g_context st)))
                = Some Paused
            \<and> s_approvals (g_store st')
                = (s_approvals (g_store st))(executionId (g_context st) \<mapsto>
                     newApprovalRequest (h_now host) node
                       (enterNode (g_context st) (n_id node)) m)))
   \<and> (getApprovalRequest store eid = Some approval \<and> notExpired host approval
      \<and> getExecution store eid = Some e \<and> executionId e = eid
      \<longrightarrow> (\<exists>store'. approve host store eid approvedBy reason additionalData = (None, store')
             \<and> map_option status (getExecution store' eid) = Some Running
             \<and> s_approvals store' = (s_approvals store)(eid := None)))
   \<and> (getApprovalRequest store eid = Some approval
      \<and> getExecution store eid = Some e \<and> executionId e = eid
      \<longrightarrow> (\<exists>store'. reject host store eid rejectedBy reason = (None, store')
             \<and> map_option status (getExecution store' eid) = Some Failed
             \<and> map_option error (getExecution store' eid)
                 = Some (Some (rejectionReason reason))
             \<and> s_approvals store' = (s_approvals store)(eid := None)))"
proof (intro conjI impI)
  assume a: "n_type node = HumanApproval \<and> ApprovalExecutor_validateConfig (n_config node) = []
    \<and> \<not> (n_id node \<in> g_visited st
           \<and> maxIterations \<le> int (visitCount (g_context st) (n_id node)))"
  then obtain m where m: "c_approvalMessage (n_config node) = Some m"
    using approval_config_message by blast
  from a have "\<exists>st'. loopBody maxIterations host workflow triggerData node st = Break st'
           \<and> status (g_context st') = Paused
           \<and> map_option status (getExecution (g_store st') (executionId (g_context st)))
               = Some Paused
           \<and> s_approvals (g_store st')
               = (s_approvals (g_store st))(executionId (g_context st) \<mapsto>
                    newApprovalRequest (h_now host) node
                      (enterNode (g_context st) (n_id node)) m)"
    by (intro loopBody_approval m) auto
  with m show "\<exists>st' m. loopBody maxIterations host workflow triggerData node st = Break st'
            \<and> c_approvalMessage (n_config node) = Some m
            \<and> status (g_context st') = Paused
            \<and> map_option status (getExecution (g_store st') (executionId (g_context st)))
                = Some Paused
            \<and> s_approvals (g_store st')
                = (s_approvals (g_store st))(executionId (g_context st) \<mapsto>
                     newApprovalRequest (h_now host) node
                       (enterNode (g_context st) (n_id node)) m)"
    by blast
next
  assume "getApprovalRequest store eid = Some approval \<and> notExpired host approval
      \<and> getExecution store eid = Some e \<and> executionId e = eid"
  then show "\<exists>store'. approve host store eid approvedBy reason additionalData = (None, store')
             \<and> map_option status (getExecution store' eid) = Some Running
             \<and> s_approvals store' = (s_approvals store)(eid := None)"
    using approve_ok by blast
next
  assume "getApprovalRequest store eid = Some approval
      \<and> getExecution store eid = Some e \<and> executionId e = eid"
  then show "\<exists>store'. reject host store eid rejectedBy reason = (None, store')
             \<and> map_option status (getExecution store' eid) = Some Failed
             \<and> map_option error (getExecution store' eid)
                 = Some (Some (rejectionReason reason))
             \<and> s_approvals store' = (s_approvals store)(eid := None)"
    using reject_ok by blast
qed


text \<open>Reaching the gate of the approval workflow, then approving, and rejecting instead.\<close>

theorem approval_lifecycle_witness:
  "(\<exists>st'. loopBody 1000 exampleHost approvalWorkflow [] approvalNode atApproval = Break st'
          \<and> status (g_context st') = Paused
          \<and> map_option status (getExecution (g_store st') ''e1'') = Some Paused
          \<and> map_option a_message (getApprovalRequest (g_store st') ''e1'')
              = Some ''Please review''
          \<and> map_option a_timeoutAt (getApprovalRequest (g_store st') ''e1'')
              = Some (Some 3601000))
   \<and> (\<exists>store'. approve exampleHost pausedStore ''e1'' ''alice'' None None = (None, store')
          \<and> map_option status (getExecution store' ''e1'') = Some Running
          \<and> getApprovalRequest store' ''e1'' = None)
   \<and> (\<exists>store'. reject exampleHost pausedStore ''e1'' ''bob'' (Some ''too expensive'')
                   = (None, store')
          \<and> map_option status (getExecution store' ''e1'') = Some Failed
          \<and> map_option error (getExecution store' ''e1'')
              = Some (Some ''Approval rejected: too expensive'')
          \<and> getApprovalRequest store' ''e1'' = None)"
proof -
  note t = approval_lifecycle[where node = approvalNode and st = atApproval
      and maxIterations = 1000 and host = exampleHost and workflow = approvalWorkflow
      and triggerData = "[]" and store = pausedStore and eid = "''e1''"
      and approval = "\<lparr> a_executionId = ''e1'', a_nodeId = ''review'',
                       a_message = ''Please review'', a_data = JObj [],
                       a_timeoutAt = Some 3601000 \<rparr>"
      and e = "(newContext ''approvals'' ''e1'' [])
                      \<lparr> status := Paused, currentNodeId := Some ''review'',
                        nodeVisitCounts := [(''start'', 1), (''review'', 1)] \<rparr>"]
  have valid: "ApprovalExecutor_validateConfig (n_config approvalNode) = []"
    by (simp add: ApprovalExecutor_validateConfig_def approvalNode_def mkNode_def
          emptyConfig_def present_def)
  have a: "\<exists>st'. loopBody 1000 exampleHost approvalWorkflow [] approvalNode atApproval = Break st'
          \<and> status (g_context st') = Paused
          \<and> map_option status (getExecution (g_store st') ''e1'') = Some Paused
          \<and> map_option a_message (getApprovalRequest (g_store st') ''e1'')
              = Some ''Please review''
          \<and> map_option a_timeoutAt (getApprovalRequest (g_store st') ''e1'')
              = Some (Some 3601000)"
    using conjunct1[OF t] valid
    by (auto simp: approvalNode_def mkNode_def emptyConfig_def atApproval_def newContext_def
          visitCount_def getApprovalRequest_def newApprovalRequest_def approvalTimeoutAt_def
          exampleHost_def)
  have b: "\<exists>store'. approve exampleHost pausedStore ''e1'' ''alice'' None None = (None, store')
          \<and> map_option status (getExecution store' ''e1'') = Some Running
          \<and> getApprovalRequest store' ''e1'' = None"
    using conjunct1[OF conjunct2[OF t], of "''alice''" None None]
    by (auto simp: pausedStore_def getApprovalRequest_def getExecution_def notExpired_def
          exampleHost_def newContext_def)
  have c: "\<exists>store'. reject exampleHost pausedStore ''e1'' ''bob'' (Some ''too expensive'')
                   = (None, store')
          \<and> map_option status (getExecution store' ''e1'') = Some Failed
          \<and> map_option error (getExecution store' ''e1'')
              = Some (Some ''Approval rejected: too expensive'')
          \<and> getApprovalRequest store' ''e1'' = None"
    using conjunct2[OF conjunct2[OF t], of "''bob''" "Some ''too expensive''"]
    by (auto simp: pausedStore_def getApprovalRequest_def getExecution_def
          rejectionReason_def newContext_def)
  from a b c show ?thesis by (intro conjI)
qed

section \<open>Properties of guard evaluation\<close>






section \<open>Properties of resuming\<close>

text \<open>
  The two refusals of \<open>resumeExecution\<close>: no stored execution, and a stored execution
  that is not paused.  Nothing is written in either case.
\<close>

lemma resume_refuses:
  "getExecution store eid = None
     \<Longrightarrow> resumeExecution maxIterations host store eid approvalData
         = (Inl (''Execution '' @ eid @ '' not found''), store)"
  "getExecution store eid = Some context \<Longrightarrow> status context \<noteq> Paused
     \<Longrightarrow> resumeExecution maxIterations host store eid approvalData
         = (Inl (''Execution '' @ eid @ '' is not paused''), store)"
  by (simp_all add: resumeExecution_def)

text \<open>
  Claim C2, on the code.  An execution of the approval workflow waits at the gate
  \<open>review\<close>, whose only outgoing edge leads to \<open>ship\<close>.  Resuming it merges the approval
  payload into the variables and enters the traversal at \<open>review\<close>; the traversal runs
  the gate itself again (its visit count becomes 2, a new approval request is saved) and
  stops there with the status \<open>paused\<close>.  The node \<open>ship\<close> is not run.
\<close>

theorem resume_pauses_again:
  "(case resumeExecution 1000 exampleHost pausedStore ''e1'' (Some [(''approved'', JBool True)]) of
      (Inr r, store') \<Rightarrow>
        x_success r \<and> x_status r = Paused \<and> x_stepsExecuted r = 1
        \<and> map_option status (getExecution store' ''e1'') = Some Paused
        \<and> map_option (\<lambda>c. map_of (variables c) ''approved'') (getExecution store' ''e1'')
            = Some (Some (JBool True))
        \<and> map_option (\<lambda>c. map_of (stepResults c) ''ship'') (getExecution store' ''e1'')
            = Some None
        \<and> map_option (\<lambda>c. map_of (nodeVisitCounts c) ''review'') (getExecution store' ''e1'')
            = Some (Some 2)
        \<and> map_option a_nodeId (getApprovalRequest store' ''e1'') = Some ''review''
    | (Inl msg, store') \<Rightarrow> False)
   \<and> getNextNodes approvalWorkflow approvalNode = [mkNode ''ship'' Action emptyConfig]"
proof -
  have nxt: "getNextNodes approvalWorkflow approvalNode = [mkNode ''ship'' Action emptyConfig]"
    by code_simp
  have found: "findNode approvalWorkflow ''review'' = Some approvalNode"
    by code_simp
  note defs = loopBody_def executeNode_def afterNode_def enterNode_def Let_def
        ApprovalExecutor_execute_def ApprovalExecutor_validateConfig_def
        updateExecutionStatus_def saveApprovalRequest_def getExecution_def saveExecution_def
        getApprovalRequest_def getWorkflow_def
        approvalNode_def mkNode_def emptyConfig_def present_def
        newContext_def visitCount_def pausedStore_def spread_def
        executeFromNode_def initialState_def finishRun_def newApprovalRequest_def
  have "(case resumeExecution 1000 exampleHost pausedStore ''e1''
               (Some [(''approved'', JBool True)]) of
      (Inr r, store') \<Rightarrow>
        x_success r \<and> x_status r = Paused \<and> x_stepsExecuted r = 1
        \<and> map_option status (getExecution store' ''e1'') = Some Paused
        \<and> map_option (\<lambda>c. map_of (variables c) ''approved'') (getExecution store' ''e1'')
            = Some (Some (JBool True))
        \<and> map_option (\<lambda>c. map_of (stepResults c) ''ship'') (getExecution store' ''e1'')
            = Some None
        \<and> map_option (\<lambda>c. map_of (nodeVisitCounts c) ''review'') (getExecution store' ''e1'')
            = Some (Some 2)
        \<and> map_option a_nodeId (getApprovalRequest store' ''e1'') = Some ''review''
    | (Inl msg, store') \<Rightarrow> False)"
    unfolding resumeExecution_def executeFromNode_def
    by (subst executeLoop.simps) (simp add: found defs)
  with nxt show ?thesis by (rule conjI[rotated])
qed

section \<open>Properties of the unsafe-code check\<close>

text \<open>
  Claim C9, on the code.  The expression \<open>process.exit(1)\<close> is one that the unsafe-code
  check refuses; as a custom aggregation it is handed to the evaluator unchanged, since
  the custom aggregation makes no such check.  The validation of a condition node
  evaluates the expression (with its placeholders replaced) before any check.  And
  \<open>globalThis.process\<close> passes the check and is evaluated.
\<close>

theorem unsafe_expressions_reach_the_evaluator:
  "containsUnsafeCode ''process.exit(1)''
   \<and> executeCustomAggregation probe [] ''process.exit(1)'' = Data (JStr ''process.exit(1)'')
   \<and> aggregateResults (exampleHost\<lparr> h_eval := probe \<rparr>) [JObj []] (Some ''custom'')
         (Some ''process.exit(1)'')
       = Inr (Plain (Data (JStr ''process.exit(1)'')))
   \<and> ConditionExecutor_validateConfig (\<lambda>expression ctx. Inl expression)
         (emptyConfig\<lparr> c_expression := Some ''process.exit({{code}})'' \<rparr>)
       = [''Invalid expression syntax: process.exit(true)'']
   \<and> \<not> containsUnsafeCode ''globalThis.process''
   \<and> safeEval probe ''globalThis.process'' [] = Inr (Data (JStr ''globalThis.process''))"
  by code_simp

end
